theory Spec2Isabelle
  imports Main "HOL-Library.Sublist" "HOL-Library.Multiset" "HOL-Library.Char_ord"
    "HOL-Library.List_Lexorder"
begin

section \<open>Errors\<close>

text \<open>
  Go errors are values. The sentinels of package \<open>derrors\<close> that the sources name are
  \<open>NotFound\<close> and \<open>InvalidArgument\<close>; \<open>Unsupported\<close> is the error of a data source that
  cannot do what is asked of it. \<open>Errorf\<close> is \<open>fmt.Errorf\<close> with a \<open>%w\<close> verb: it keeps the
  format, the string operands and the error it wraps. \<open>ErrorString\<close> stands for any other
  error a collaborator may hand back.
\<close>

datatype error =
    NotFound
  | InvalidArgument
  | Unsupported
  | ErrorString string
  | Errorf string "string list" error

text \<open>\<open>errors.Is\<close>: the target is the error itself or is reached by unwrapping.\<close>

fun errors_Is :: "error \<Rightarrow> error \<Rightarrow> bool" where
  "errors_Is (Errorf f args e) t = (Errorf f args e = t \<or> errors_Is e t)"
| "errors_Is e t = (e = t)"

text \<open>
  Modelled from the spec: \<open>derrors.Wrap\<close> (package \<open>internal/derrors\<close> is not among the
  sources). Every operation defers it; it wraps a returned error with the operation and its
  operands and leaves a success alone, so the kind of the error does not change.
\<close>

definition derrors_Wrap :: "string \<Rightarrow> string list \<Rightarrow> error + 'a \<Rightarrow> error + 'a" where
  "derrors_Wrap f args r = (case r of Inl e \<Rightarrow> Inl (Errorf f args e) | Inr v \<Rightarrow> Inr v)"

section \<open>Go's package \<open>strings\<close> and \<open>path\<close>\<close>

definition HasPrefix :: "string \<Rightarrow> string \<Rightarrow> bool" where
  "HasPrefix s pre = (take (length pre) s = pre)"

definition TrimPrefix :: "string \<Rightarrow> string \<Rightarrow> string" where
  "TrimPrefix s pre = (if HasPrefix s pre then drop (length pre) s else s)"

text \<open>
  \<open>path.Clean\<close>, as the standard library writes it: \<open>out\<close> is the buffer written so far,
  \<open>dotdot\<close> the index below which \<open>..\<close> may not remove anything, and the last argument
  what is left to read. \<open>backtrack\<close> is the inner loop of the \<open>..\<close> case: it moves the
  write index \<open>w\<close> back to the previous slash.
\<close>

fun backtrack :: "string \<Rightarrow> nat \<Rightarrow> nat \<Rightarrow> nat" where
  "backtrack buf dotdot 0 = 0"
| "backtrack buf dotdot (Suc w) =
     (if Suc w > dotdot \<and> buf ! Suc w \<noteq> CHR ''/'' then backtrack buf dotdot w else Suc w)"

function clean_loop :: "bool \<Rightarrow> string \<Rightarrow> nat \<Rightarrow> string \<Rightarrow> string" where
  "clean_loop rooted out dotdot [] = out"
| "clean_loop rooted out dotdot (c # rest) =
     (if c = CHR ''/'' then clean_loop rooted out dotdot rest
      else if c = CHR ''.'' \<and> (rest = [] \<or> hd rest = CHR ''/'') then
        clean_loop rooted out dotdot rest
      else if c = CHR ''.'' \<and> hd rest = CHR ''.'' \<and> (tl rest = [] \<or> hd (tl rest) = CHR ''/'') then
        (if length out > dotdot then
           clean_loop rooted (take (backtrack out dotdot (length out - 1)) out) dotdot (tl rest)
         else if \<not> rooted then
           (let out' = (if out \<noteq> [] then out @ ''/'' else out) @ ''..''
            in clean_loop rooted out' (length out') (tl rest))
         else clean_loop rooted out dotdot (tl rest))
      else
        (let out' = (if (rooted \<and> length out \<noteq> 1) \<or> (\<not> rooted \<and> length out \<noteq> 0)
                     then out @ ''/'' else out)
         in clean_loop rooted (out' @ c # takeWhile (\<lambda>x. x \<noteq> CHR ''/'') rest) dotdot
              (dropWhile (\<lambda>x. x \<noteq> CHR ''/'') rest)))"
  by pat_completeness auto
termination
  by (relation "measure (\<lambda>(rooted, out, dotdot, rest). length rest)")
     (auto simp: length_dropWhile_le le_imp_less_Suc)

definition Clean :: "string \<Rightarrow> string" where
  "Clean p =
     (if p = [] then ''.''
      else
        (let rooted = (hd p = CHR ''/'');
             out = (if rooted then clean_loop True ''/'' 1 (tl p) else clean_loop False [] 0 p)
         in if out = [] then ''.'' else out))"

text \<open>\<open>path.Split\<close> cuts after the last slash; \<open>path.Dir\<close> cleans the first half.\<close>

fun lastSlash :: "string \<Rightarrow> nat" where
  "lastSlash [] = 0"
| "lastSlash (c # cs) =
     (if CHR ''/'' \<in> set cs then Suc (lastSlash cs) else if c = CHR ''/'' then 1 else 0)"

definition Split :: "string \<Rightarrow> string \<times> string" where
  "Split p = (take (lastSlash p) p, drop (lastSlash p) p)"

definition Dir :: "string \<Rightarrow> string" where
  "Dir p = Clean (fst (Split p))"

text \<open>\<open>path.Join\<close> drops the empty elements, joins the rest with slashes and cleans.\<close>

fun join_elems :: "string \<Rightarrow> string list \<Rightarrow> string" where
  "join_elems buf [] = buf"
| "join_elems buf (e # es) =
     (if buf \<noteq> [] \<or> e \<noteq> []
      then join_elems ((if buf \<noteq> [] then buf @ ''/'' else buf) @ e) es
      else join_elems buf es)"

definition Join :: "string list \<Rightarrow> string" where
  "Join elem = (if concat elem = [] then [] else Clean (join_elems [] elem))"

section \<open>The proxy data source (\<open>internal/proxydatasource/details.go\<close>)\<close>

text \<open>
  The records carry the fields the source reads.
\<close>

record License =
  lic_FilePath :: string

record Unit =
  u_Path :: string
  u_Name :: string
  u_IsRedistributable :: bool

record ModuleInfo =
  mi_ModulePath :: string
  mi_Version :: string

record Module =
  mod_ModuleInfo :: ModuleInfo
  mod_Licenses :: "License list"
  mod_Units :: "Unit list"

record VersionInfo =
  vi_Version :: string

record PathInfo =
  pi_Path :: string
  pi_ModulePath :: string
  pi_Version :: string
  pi_Name :: string
  pi_IsRedistributable :: bool

text \<open>
  Modelled from the spec: the constants \<open>internal.UnknownModulePath\<close> (the "unknown"
  sentinel of a module path), \<open>internal.LatestVersion\<close> (the "latest" pseudo-version) and
  \<open>stdlib.ModulePath\<close> (the path of the standard-library pseudo-module); the packages
  \<open>internal\<close> and \<open>internal/stdlib\<close> are not among the sources. The general theorems below
  hold whatever the three strings are; their spelling matters to the sample data only.
\<close>

definition internal_UnknownModulePath :: string where
  "internal_UnknownModulePath = ''unknownModulePath''"

definition internal_LatestVersion :: string where
  "internal_LatestVersion = ''latest''"

definition stdlib_ModulePath :: string where
  "stdlib_ModulePath = ''std''"

text \<open>
  The data source reaches the proxy through its methods \<open>getModule\<close> and \<open>findModule\<close>,
  which live in another file; they are the two fields of the record, each a function of
  its arguments that fails or returns.
\<close>

record DataSource =
  getModule :: "string \<Rightarrow> string \<Rightarrow> error + Module"
  findModule :: "string \<Rightarrow> string \<Rightarrow> error + (string \<times> VersionInfo)"

text \<open>The loop of \<open>GetLicenses\<close>: a license stays when its directory prefixes the path.\<close>

definition licensePath :: "string \<Rightarrow> License \<Rightarrow> string" where
  "licensePath modulePath license = Join [modulePath, Dir (lic_FilePath license)]"

fun filterLicenses :: "string \<Rightarrow> string \<Rightarrow> License list \<Rightarrow> License list" where
  "filterLicenses fullPath modulePath [] = []"
| "filterLicenses fullPath modulePath (license # rest) =
     (if HasPrefix fullPath (licensePath modulePath license)
      then license # filterLicenses fullPath modulePath rest
      else filterLicenses fullPath modulePath rest)"

definition GetLicenses ::
  "DataSource \<Rightarrow> string \<Rightarrow> string \<Rightarrow> string \<Rightarrow> error + License list" where
  "GetLicenses ds fullPath modulePath resolvedVersion =
     derrors_Wrap ''GetLicenses(%q, %q, %q)'' [fullPath, modulePath, resolvedVersion]
       (case getModule ds modulePath resolvedVersion of
          Inl err \<Rightarrow> Inl err
        | Inr v \<Rightarrow>
            (let lics = filterLicenses fullPath modulePath (mod_Licenses v)
             in if length lics = 0
                then Inl (Errorf ''path %s is missing from module %s: %w''
                            [fullPath, modulePath] NotFound)
                else Inr lics))"

text \<open>
  \<open>GetPathInfo\<close>. \<open>copyUnit\<close> is its loop: the first unit at the path gives the name and
  the flag. \<open>newPathInfo\<close> is the second half of the function, from the call of
  \<open>getModule\<close> on, once the module path and the version are settled.
\<close>

fun copyUnit :: "string \<Rightarrow> Unit list \<Rightarrow> PathInfo \<Rightarrow> PathInfo" where
  "copyUnit path [] pi = pi"
| "copyUnit path (d # ds) pi =
     (if u_Path d = path
      then pi\<lparr>pi_Name := u_Name d, pi_IsRedistributable := u_IsRedistributable d\<rparr>
      else copyUnit path ds pi)"

definition newPathInfo :: "DataSource \<Rightarrow> string \<Rightarrow> string \<Rightarrow> string \<Rightarrow> error + PathInfo" where
  "newPathInfo ds path inModulePath inVersion =
     (case getModule ds inModulePath inVersion of
        Inl err \<Rightarrow> Inl err
      | Inr m \<Rightarrow>
          Inr (copyUnit path (mod_Units m)
                 \<lparr>pi_Path = path, pi_ModulePath = inModulePath, pi_Version = inVersion,
                  pi_Name = [], pi_IsRedistributable = False\<rparr>))"

definition GetPathInfo ::
  "DataSource \<Rightarrow> string \<Rightarrow> string \<Rightarrow> string \<Rightarrow> error + PathInfo" where
  "GetPathInfo ds path inModulePath inVersion =
     derrors_Wrap ''GetPathInfo(%q, %q, %q)'' [path, inModulePath, inVersion]
       (if inModulePath = internal_UnknownModulePath
        then (case findModule ds path inVersion of
                Inl err \<Rightarrow> Inl err
              | Inr (inModulePath', info) \<Rightarrow>
                  newPathInfo ds path inModulePath' (vi_Version info))
        else newPathInfo ds path inModulePath inVersion)"

section \<open>Directories (\<open>internal/frontend/directory.go\<close>)\<close>

text \<open>
  \<open>PackageMeta\<close> and \<open>Package\<close> have the fields the source reads and writes;
  \<open>DirectoryMeta\<close> embeds a \<open>ModuleInfo\<close>. The source never looks inside a
  \<open>licenses.Metadata\<close> or a \<open>Module\<close> of the frontend, so they are the type variables
  \<open>'l\<close> and \<open>'m\<close>.
\<close>

record PackageMeta =
  pm_Path :: string
  pm_Name :: string
  pm_Synopsis :: string

record Package =
  pkg_Path :: string
  pkg_PathAfterDirectory :: string
  pkg_Synopsis :: string

record 'l DirectoryMeta =
  dm_Path :: string
  dm_ModuleInfo :: ModuleInfo
  dm_Licenses :: "'l list"

record 'm DirectoryHeader =
  dh_Module :: 'm
  dh_Path :: string
  dh_URL :: string

record 'm Directory =
  dir_DirectoryHeader :: "'m DirectoryHeader"
  dir_Packages :: "Package list"

text \<open>
  \<open>ds.(*postgres.DB)\<close> asks which implementation of \<open>internal.DataSource\<close> the caller
  passed: the database, whose method \<open>GetPackagesInUnit\<close> is a function that fails or
  returns, or the proxy data source above.
\<close>

record postgres_DB =
  GetPackagesInUnit :: "string \<Rightarrow> string \<Rightarrow> string \<Rightarrow> error + PackageMeta list"

datatype internal_DataSource =
    PostgresDB postgres_DB
  | ProxyDataSource DataSource

text \<open>
  The functions of the repository that \<open>directory.go\<close> calls and that are not among the
  sources are parameters, the fields of one record: \<open>createModule\<close>, \<open>createPackage\<close>
  (which may fail), \<open>linkVersion\<close> and \<open>effectiveName\<close> of package \<open>frontend\<close>, and
  \<open>internal.Suffix\<close>.
\<close>

record ('m, 'l) helpers =
  createModule :: "ModuleInfo \<Rightarrow> 'l list \<Rightarrow> bool \<Rightarrow> 'm"
  createPackage :: "PackageMeta \<Rightarrow> ModuleInfo \<Rightarrow> bool \<Rightarrow> error + Package"
  linkVersion :: "string \<Rightarrow> string \<Rightarrow> string"
  effectiveName :: "string \<Rightarrow> string \<Rightarrow> string"
  internal_Suffix :: "string \<Rightarrow> string \<Rightarrow> string"

text \<open>
  Modelled from the spec: \<open>proxydatasourceNotSupportedErr\<close> of package \<open>frontend\<close> (not among
  the sources), the "unsupported" error that directory assembly over the proxy-backed data
  source fails with.
\<close>

definition proxydatasourceNotSupportedErr :: error where
  "proxydatasourceNotSupportedErr = Unsupported"

definition constructDirectoryURL :: "string \<Rightarrow> string \<Rightarrow> string \<Rightarrow> string" where
  "constructDirectoryURL dirPath modulePath linkVersion' =
     (if linkVersion' = internal_LatestVersion then ''/'' @ dirPath
      else if dirPath = modulePath \<or> modulePath = stdlib_ModulePath
      then ''/'' @ dirPath @ ''@'' @ linkVersion'
      else ''/'' @ modulePath @ ''@'' @ linkVersion' @ ''/'' @
             TrimPrefix dirPath (modulePath @ ''/''))"

definition createDirectoryHeader ::
  "('m, 'l) helpers \<Rightarrow> string \<Rightarrow> ModuleInfo \<Rightarrow> 'l list \<Rightarrow> 'm DirectoryHeader" where
  "createDirectoryHeader h dirPath mi licmetas =
     \<lparr>dh_Module = createModule h mi licmetas False,
      dh_Path = dirPath,
      dh_URL = constructDirectoryURL dirPath (mi_ModulePath mi)
                 (linkVersion h (mi_Version mi) (mi_ModulePath mi))\<rparr>"

text \<open>
  The loop of \<open>createDirectory\<close>: a package at \<open>dirPath\<close> is passed over unless
  \<open>includeDirPath\<close> is set, the first failure of \<open>createPackage\<close> ends the loop, and the
  packages are appended in the order of the input.
\<close>

fun createPackages ::
  "('m, 'l) helpers \<Rightarrow> string \<Rightarrow> ModuleInfo \<Rightarrow> bool \<Rightarrow> PackageMeta list \<Rightarrow> error + Package list"
where
  "createPackages h dirPath mi includeDirPath [] = Inr []"
| "createPackages h dirPath mi includeDirPath (pm # rest) =
     (if \<not> includeDirPath \<and> pm_Path pm = dirPath
      then createPackages h dirPath mi includeDirPath rest
      else
        (case createPackage h pm mi False of
           Inl err \<Rightarrow> Inl err
         | Inr newPkg \<Rightarrow>
             (let newPkg1 = newPkg\<lparr>pkg_PathAfterDirectory := internal_Suffix h (pm_Path pm) dirPath,
                                   pkg_Synopsis := pm_Synopsis pm\<rparr>;
                  newPkg2 = (if pkg_PathAfterDirectory newPkg1 = []
                             then newPkg1\<lparr>pkg_PathAfterDirectory :=
                                    effectiveName h (pm_Path pm) (pm_Name pm) @ '' (root)''\<rparr>
                             else newPkg1)
              in (case createPackages h dirPath mi includeDirPath rest of
                    Inl err \<Rightarrow> Inl err
                  | Inr packages \<Rightarrow> Inr (newPkg2 # packages)))))"

text \<open>
  \<open>sort.Slice\<close> with the comparison \<open>packages[i].Path < packages[j].Path\<close> orders the packages
  by their paths, compared byte by byte as Go compares strings. \<open>sort.Slice\<close> promises no
  order among packages of one path; \<open>sort_key\<close> keeps them as they were.
\<close>

definition createDirectory ::
  "('m, 'l) helpers \<Rightarrow> string \<Rightarrow> ModuleInfo \<Rightarrow> PackageMeta list \<Rightarrow> 'l list \<Rightarrow> bool
     \<Rightarrow> error + 'm Directory" where
  "createDirectory h dirPath mi pkgMetas licmetas includeDirPath =
     (case createPackages h dirPath mi includeDirPath pkgMetas of
        Inl err \<Rightarrow> Inl err
      | Inr packages \<Rightarrow>
          Inr \<lparr>dir_DirectoryHeader = createDirectoryHeader h dirPath mi licmetas,
               dir_Packages = sort_key pkg_Path packages\<rparr>)"

text \<open>
  \<open>fetchDirectoryDetails\<close>. The deferred \<open>derrors.Wrap\<close> prints the licenses with \<open>%v\<close>;
  the operands kept here are the three strings.
\<close>

definition fetchDirectoryDetails ::
  "('m, 'l) helpers \<Rightarrow> internal_DataSource \<Rightarrow> 'l DirectoryMeta \<Rightarrow> bool \<Rightarrow> error + 'm Directory"
where
  "fetchDirectoryDetails h ds dmeta includeDirPath =
     derrors_Wrap ''fetchDirectoryDetails(%q, %q, %q, %v)''
       [dm_Path dmeta, mi_ModulePath (dm_ModuleInfo dmeta), mi_Version (dm_ModuleInfo dmeta)]
       (case ds of
          ProxyDataSource x \<Rightarrow> Inl proxydatasourceNotSupportedErr
        | PostgresDB db \<Rightarrow>
            (if includeDirPath \<and> dm_Path dmeta \<noteq> mi_ModulePath (dm_ModuleInfo dmeta)
                \<and> dm_Path dmeta \<noteq> stdlib_ModulePath
             then Inl (Errorf
                    ''includeDirPath can only be set to true if dirPath = modulePath: %w'' []
                    InvalidArgument)
             else
               (case GetPackagesInUnit db (dm_Path dmeta) (mi_ModulePath (dm_ModuleInfo dmeta))
                       (mi_Version (dm_ModuleInfo dmeta)) of
                  Inl err \<Rightarrow>
                    (if \<not> errors_Is err NotFound then Inl err
                     else Inr \<lparr>dir_DirectoryHeader =
                                 createDirectoryHeader h (dm_Path dmeta) (dm_ModuleInfo dmeta)
                                   (dm_Licenses dmeta),
                               dir_Packages = []\<rparr>)
                | Inr packages \<Rightarrow>
                    createDirectory h (dm_Path dmeta) (dm_ModuleInfo dmeta) packages
                      (dm_Licenses dmeta) includeDirPath)))"

section \<open>The latest-version badge (\<open>internal/middleware\<close>)\<close>

text \<open>
  Modelled from the spec: the response transform \<open>LatestVersion\<close> of package
  \<open>internal/middleware\<close> and the parts it is made of, in this section. The file that
  defines the handler is not among the sources; its test \<open>TestLatestVersion\<close> is, and the
  pages of the test give what the spec leaves open: the spelling of the two placeholder
  tokens and of the three class names, the layout of a badge element, and the entity
  \<open>&#43;\<close> that stands for a plus sign in a version.
\<close>

definition latestMinorClassPlaceholder :: string where
  "latestMinorClassPlaceholder = ''$$GODISCOVERY_LATESTMINORCLASS$$''"

definition LatestMinorVersionPlaceholder :: string where
  "LatestMinorVersionPlaceholder = ''$$GODISCOVERY_LATESTMINORVERSION$$''"

definition dq :: char where
  "dq = CHR 0x22"

text \<open>
  Modelled from the spec: the attribute pattern of a badge, in the layout of the test's
  pages: \<open>data-version\<close>, \<open>data-mpath\<close>, \<open>data-ppath\<close> and
  \<open>data-pagetype\<close>, in this order, one space apart, each value between double quotes and
  free of them. \<open>quoted\<close> reads a value up to its closing quote, \<open>attribute\<close> one
  attribute, and \<open>matchInfo\<close> the four of them at the head of a text; it gives the values
  and the text behind them. \<open>FindSubmatch\<close> says whether the pattern is found anywhere in
  a text, and with which values at the leftmost place.
\<close>

fun quoted :: "string \<Rightarrow> (string \<times> string) option" where
  "quoted [] = None"
| "quoted (c # cs) =
     (if c = dq then Some ([], cs)
      else (case quoted cs of None \<Rightarrow> None | Some (v, rest) \<Rightarrow> Some (c # v, rest)))"

definition attribute :: "string \<Rightarrow> string \<Rightarrow> (string \<times> string) option" where
  "attribute name s =
     (if HasPrefix s (name @ ''='' @ [dq]) then quoted (drop (length name + 2) s) else None)"

definition matchInfo ::
  "string \<Rightarrow> ((string \<times> string \<times> string \<times> string) \<times> string) option" where
  "matchInfo s =
     (case attribute ''data-version'' s of None \<Rightarrow> None | Some (version, s1) \<Rightarrow>
      (case attribute '' data-mpath'' s1 of None \<Rightarrow> None | Some (mpath, s2) \<Rightarrow>
       (case attribute '' data-ppath'' s2 of None \<Rightarrow> None | Some (ppath, s3) \<Rightarrow>
        (case attribute '' data-pagetype'' s3 of None \<Rightarrow> None | Some (pagetype, s4) \<Rightarrow>
           Some ((version, mpath, ppath, pagetype), s4)))))"

fun FindSubmatch :: "string \<Rightarrow> (string \<times> string \<times> string \<times> string) option" where
  "FindSubmatch [] = None"
| "FindSubmatch (c # cs) =
     (case matchInfo (c # cs) of Some (m, rest) \<Rightarrow> Some m | None \<Rightarrow> FindSubmatch cs)"

text \<open>
  Modelled from the spec: a badge element carries the class placeholder and, as sibling
  attributes on the same element, the four values. In the pages of the test the attributes
  follow the placeholder in the tag. \<open>tagAttrs\<close> looks for the attribute pattern up to the
  end of the tag, the next \<open>>\<close>, and gives the values and the number of characters up to
  the end of the attributes; \<open>badgeAt\<close> does so behind a class placeholder at the head of
  a text.
\<close>

fun tagAttrs :: "string \<Rightarrow> ((string \<times> string \<times> string \<times> string) \<times> nat) option" where
  "tagAttrs [] = None"
| "tagAttrs (c # cs) =
     (case matchInfo (c # cs) of
        Some (m, rest) \<Rightarrow> Some (m, length (c # cs) - length rest)
      | None \<Rightarrow>
          (if c = CHR ''>'' then None
           else (case tagAttrs cs of None \<Rightarrow> None | Some (m, n) \<Rightarrow> Some (m, Suc n))))"

definition badgeAt :: "string \<Rightarrow> ((string \<times> string \<times> string \<times> string) \<times> nat) option" where
  "badgeAt s =
     (if HasPrefix s latestMinorClassPlaceholder
      then tagAttrs (drop (length latestMinorClassPlaceholder) s)
      else None)"

text \<open>
  Modelled from the spec: the version classifier, which asks in this order whether the
  latest version is unknown (empty), is the requested one, or is another; and the decoding
  of the requested version, which turns every entity \<open>&#43;\<close> into a plus sign
  (\<open>ReplaceAll\<close> is Go's \<open>strings.ReplaceAll\<close> for a token that is not empty).
\<close>

function ReplaceAll :: "string \<Rightarrow> string \<Rightarrow> string \<Rightarrow> string" where
  "ReplaceAll old new [] = []"
| "ReplaceAll old new (c # cs) =
     (if old \<noteq> [] \<and> HasPrefix (c # cs) old
      then new @ ReplaceAll old new (drop (length old) (c # cs))
      else c # ReplaceAll old new cs)"
  by pat_completeness auto
termination
  by (relation "measure (\<lambda>(old, new, s). length s)") auto

definition latestClass :: "string \<Rightarrow> string \<Rightarrow> string" where
  "latestClass version latestVersion =
     ''DetailsHeader-badge--'' @
       (if latestVersion = [] then ''unknown''
        else if latestVersion = version then ''latest''
        else ''goToLatest'')"

definition decodeVersion :: "string \<Rightarrow> string" where
  "decodeVersion v = ReplaceAll ''&#43;'' ''+'' v"

text \<open>
  Modelled from the spec: the handler \<open>LatestVersion\<close> of \<open>internal/middleware\<close> (the file
  that defines it is not among the sources), as the transform of the buffered body; the
  status code and the headers, which pass through, are not part of the model. The rewrite is
  textual and goes through the body from the left. Where a badge element begins, its four
  values are read from its own attributes, the version is decoded, the lookup
  \<open>latest path modulePath pageType\<close> is asked, and the class takes the place of the class
  placeholder. The version placeholder of the element's link is the first one behind the
  attributes, before any other badge; the lookup's answer takes its place. \<open>link\<close> holds
  this answer while the link is looked for. Every badge is so resolved by itself.
  Everything else is copied: a class placeholder with no attributes in its tag, a version
  placeholder that belongs to no badge, and so the whole of a body in which the attribute
  pattern is not found.
\<close>

function rewrite ::
  "(string \<Rightarrow> string \<Rightarrow> string \<Rightarrow> string) \<Rightarrow> string option \<Rightarrow> string \<Rightarrow> string" where
  "rewrite latest link [] = []"
| "rewrite latest link (c # cs) =
     (case badgeAt (c # cs) of
        Some ((v, mpath, ppath, pagetype), n) \<Rightarrow>
          (let latestVersion = latest ppath mpath pagetype
           in latestClass (decodeVersion v) latestVersion @
              take n (drop (length latestMinorClassPlaceholder) (c # cs)) @
              rewrite latest (Some latestVersion)
                (drop (length latestMinorClassPlaceholder + n) (c # cs)))
      | None \<Rightarrow>
          (case link of
             Some latestVersion \<Rightarrow>
               (if HasPrefix (c # cs) LatestMinorVersionPlaceholder
                then latestVersion @
                     rewrite latest None (drop (length LatestMinorVersionPlaceholder) (c # cs))
                else c # rewrite latest link cs)
           | None \<Rightarrow> c # rewrite latest None cs))"
  by pat_completeness auto
termination
  by (relation "measure (\<lambda>(latest, link, s). length s)")
     (auto simp: latestMinorClassPlaceholder_def LatestMinorVersionPlaceholder_def)

definition LatestVersion ::
  "(string \<Rightarrow> string \<Rightarrow> string \<Rightarrow> string) \<Rightarrow> string \<Rightarrow> string" where
  "LatestVersion latest body = rewrite latest None body"

text \<open>
  The pages of \<open>TestLatestVersion\<close>: \<open>testPage\<close> is the markup the cases share, with the
  class, the attributes and the link target left open; \<open>badgeAttrs\<close> writes the four
  attributes.
\<close>

definition badgeAttrs :: "string \<Rightarrow> string \<Rightarrow> string \<Rightarrow> string \<Rightarrow> string" where
  "badgeAttrs version mpath ppath pagetype =
     ''data-version='' @ [dq] @ version @ [dq] @
     '' data-mpath='' @ [dq] @ mpath @ [dq] @
     '' data-ppath='' @ [dq] @ ppath @ [dq] @
     '' data-pagetype='' @ [dq] @ pagetype @ [dq]"

definition testHead :: string where
  "testHead = [CHR 0x0A] @ ''                <div class='' @ [dq] @ ''DetailsHeader-badge ''"

definition testIndent :: string where
  "testIndent = [dq, CHR 0x0A, CHR 0x09, CHR 0x09, CHR 0x09, CHR 0x09, CHR 0x09] @ '' ''"

definition testMiddle :: string where
  "testMiddle =
     ''>'' @ [CHR 0x0A] @ ''                    <span>Latest</span>'' @
     [CHR 0x0A] @ ''                    <a href='' @ [dq]"

definition testTail :: string where
  "testTail = [dq] @ ''>Go to latest</a>'' @ [CHR 0x0A] @ ''                </div>''"

definition testPage :: "string \<Rightarrow> string \<Rightarrow> string \<Rightarrow> string \<Rightarrow> string \<Rightarrow> string" where
  "testPage cls attrs hrefBefore version hrefAfter =
     testHead @ cls @ testIndent @ attrs @ testMiddle @ hrefBefore @ version @ hrefAfter @
     testTail"

text \<open>
  The page of the case "no regexp match": the badge has no data attributes.
\<close>

definition testPageNoAttrs :: string where
  "testPageNoAttrs =
     testHead @ latestMinorClassPlaceholder @ [dq] @ testMiddle @ ''mod/p1/p2@'' @
     LatestMinorVersionPlaceholder @ testTail"

section \<open>Notions of the specification\<close>

text \<open>
  A directory \<open>dir\<close> is the path \<open>p\<close> or one of its ancestors when \<open>p\<close> is \<open>dir\<close> itself or
  goes on after \<open>dir\<close> with a slash. The containment invariant of a \<open>PathInfo\<close> asks this of
  its module path and its path, the standard library apart.
\<close>

definition dirOrAncestor :: "string \<Rightarrow> string \<Rightarrow> bool" where
  "dirOrAncestor dir p = (p = dir \<or> HasPrefix p (dir @ ''/''))"

definition containment :: "PathInfo \<Rightarrow> bool" where
  "containment pi =
     (pi_ModulePath pi = stdlib_ModulePath \<or> dirOrAncestor (pi_ModulePath pi) (pi_Path pi))"

text \<open>
  A token begins in a text \<open>x\<close> that is followed by \<open>s\<close> when it stands at one of the
  places of \<open>x\<close>, wholly in \<open>x\<close> or running on into \<open>s\<close>. \<open>attrStart\<close> is how the
  attribute pattern begins.
\<close>

fun beginsIn :: "string \<Rightarrow> string \<Rightarrow> string \<Rightarrow> bool" where
  "beginsIn tok [] s = False"
| "beginsIn tok (c # x) s = (HasPrefix (c # x @ s) tok \<or> beginsIn tok x s)"

definition attrStart :: string where
  "attrStart = ''data-version='' @ [dq]"

section \<open>Sample data\<close>

text \<open>
  A module \<open>m\<close> at \<open>v1.0.0\<close> with one license, in its directory \<open>foo\<close>, and a proxy that
  knows this module alone, under every version it is asked for.
\<close>

definition sampleModule :: Module where
  "sampleModule =
     \<lparr>mod_ModuleInfo = \<lparr>mi_ModulePath = ''m'', mi_Version = ''v1.0.0''\<rparr>,
      mod_Licenses = [\<lparr>lic_FilePath = ''foo/LICENSE''\<rparr>],
      mod_Units = [\<lparr>u_Path = ''m/foo'', u_Name = ''foo'', u_IsRedistributable = True\<rparr>]\<rparr>"

definition sampleDS :: DataSource where
  "sampleDS =
     \<lparr>getModule = (\<lambda>modulePath version.
        if modulePath = ''m'' then Inr sampleModule else Inl NotFound),
      findModule = (\<lambda>path version.
        if HasPrefix path ''m/'' then Inr (''m'', \<lparr>vi_Version = ''v1.0.0''\<rparr>)
        else Inl (Errorf ''unable to find module: %w'' [] NotFound))\<rparr>"

text \<open>
  Stand-ins for the functions of package \<open>frontend\<close> that are parameters, a directory
  record of the module \<open>m\<close>, three packages of its directory \<open>m/foo\<close>, and a database
  that knows this directory, reports \<open>NotFound\<close> for \<open>m/empty\<close> and breaks on any other.
\<close>

definition sampleHelpers :: "(string, string) helpers" where
  "sampleHelpers =
     \<lparr>createModule = (\<lambda>mi licmetas latestRequested. mi_ModulePath mi),
      createPackage = (\<lambda>pm mi latestRequested.
        if pm_Path pm = [] then Inl (ErrorString ''no package path'')
        else Inr \<lparr>pkg_Path = pm_Path pm, pkg_PathAfterDirectory = [], pkg_Synopsis = []\<rparr>),
      linkVersion = (\<lambda>version modulePath. version),
      effectiveName = (\<lambda>path name. name),
      internal_Suffix = (\<lambda>fullPath basePath. TrimPrefix (TrimPrefix fullPath basePath) ''/'')\<rparr>"

definition sampleMeta :: "string \<Rightarrow> string DirectoryMeta" where
  "sampleMeta path =
     \<lparr>dm_Path = path, dm_ModuleInfo = \<lparr>mi_ModulePath = ''m'', mi_Version = ''v1.0.0''\<rparr>,
      dm_Licenses = []\<rparr>"

definition samplePackages :: "PackageMeta list" where
  "samplePackages =
     [\<lparr>pm_Path = ''m/foo/z'', pm_Name = ''z'', pm_Synopsis = ''last''\<rparr>,
      \<lparr>pm_Path = ''m/foo'', pm_Name = ''foo'', pm_Synopsis = ''the directory''\<rparr>,
      \<lparr>pm_Path = ''m/foo/a'', pm_Name = ''a'', pm_Synopsis = ''first''\<rparr>]"

definition sampleDB :: postgres_DB where
  "sampleDB =
     \<lparr>GetPackagesInUnit = (\<lambda>path modulePath version.
        if path = ''m/foo'' then Inr samplePackages
        else if path = ''m/empty'' then Inl (Errorf ''GetPackagesInUnit: %w'' [] NotFound)
        else Inl (ErrorString ''connection refused''))\<rparr>"

text \<open>
  The lookups of \<open>TestLatestVersion\<close> return one version whatever they are asked;
  \<open>latestOf\<close> knows the module \<open>p1/p2\<close> alone. \<open>otherElement\<close> is an element that is no
  badge and has the four attributes.
\<close>

definition latestIs :: "string \<Rightarrow> string \<Rightarrow> string \<Rightarrow> string \<Rightarrow> string" where
  "latestIs version path modulePath pageType = version"

definition latestOf :: "string \<Rightarrow> string \<Rightarrow> string \<Rightarrow> string" where
  "latestOf path modulePath pageType = (if modulePath = ''p1/p2'' then ''v1.2.3'' else [])"

definition otherElement :: string where
  "otherElement = ''<p '' @ badgeAttrs ''v0.0.1'' ''x'' ''y'' ''pkg'' @ ''>old</p>''"

text \<open>
  A text has no start of the attribute pattern when no \<open>d\<close> in it is followed by an
  \<open>a\<close> and it does not end in \<open>d\<close>.
\<close>

fun noStart :: "string \<Rightarrow> bool" where
  "noStart [] = True"
| "noStart [c] = (c \<noteq> CHR ''d'')"
| "noStart (c # c' # cs) = ((c \<noteq> CHR ''d'' \<or> c' \<noteq> CHR ''a'') \<and> noStart (c' # cs))"

section \<open>Properties of the proxy data source\<close>

lemma filterLicenses_filter:
  "filterLicenses fullPath modulePath ls =
     filter (\<lambda>l. HasPrefix fullPath (licensePath modulePath l)) ls"
  by (induction ls) auto

lemma licensePath_sample: "licensePath ''m'' \<lparr>lic_FilePath = ''foo/LICENSE''\<rparr> = ''m/foo''"
  by (simp add: licensePath_def Join_def Dir_def Split_def Clean_def)

lemma errors_Is_refl [simp]: "errors_Is e e"
  by (cases e) simp_all

lemma derrors_Wrap_Inr [simp]: "derrors_Wrap f args r = Inr v \<longleftrightarrow> r = Inr v"
  by (cases r) (simp_all add: derrors_Wrap_def)

lemma derrors_Wrap_Inl [simp]: "derrors_Wrap f args (Inl e) = Inl (Errorf f args e)"
  by (simp add: derrors_Wrap_def)

lemma derrors_Wrap_Inr' [simp]: "derrors_Wrap f args (Inr v) = Inr v"
  by (simp add: derrors_Wrap_def)

text \<open>
  What the code does keep: every license whose directory is the path or above it.
\<close>

lemma HasPrefix_shorter:
  assumes "HasPrefix p (dir @ x)"
  shows "HasPrefix p dir"
proof -
  have "take (length dir) p = take (length dir) (take (length (dir @ x)) p)"
    by (simp add: min_def)
  also have "\<dots> = take (length dir) (dir @ x)"
    using assms by (simp add: HasPrefix_def)
  finally show ?thesis by (simp add: HasPrefix_def)
qed

lemma dirOrAncestor_kept:
  assumes "dirOrAncestor (licensePath modulePath l) fullPath" and "l \<in> set ls"
  shows "l \<in> set (filterLicenses fullPath modulePath ls)"
proof -
  from assms(1) have "HasPrefix fullPath (licensePath modulePath l)"
    unfolding dirOrAncestor_def
  proof
    assume "fullPath = licensePath modulePath l"
    then show ?thesis by (simp add: HasPrefix_def)
  next
    assume "HasPrefix fullPath (licensePath modulePath l @ ''/'')"
    then show ?thesis by (rule HasPrefix_shorter)
  qed
  with assms(2) show ?thesis by (simp add: filterLicenses_filter)
qed

text \<open>
  C1. \<open>GetLicenses\<close> keeps a license when its directory, joined to the module path, is a
  prefix of the full path as a string. The comment in the source speaks of the current or
  a parent directory of the path; the prefix test also lets through a directory that is
  neither. For the path \<open>m/foobar\<close> the license of the directory \<open>m/foo\<close> is returned,
  though \<open>m/foo\<close> is not \<open>m/foobar\<close> and not above it.
\<close>

theorem GetLicenses_keeps_sibling_directory:
  "GetLicenses sampleDS ''m/foobar'' ''m'' ''v1.0.0'' = Inr [\<lparr>lic_FilePath = ''foo/LICENSE''\<rparr>]
   \<and> licensePath ''m'' \<lparr>lic_FilePath = ''foo/LICENSE''\<rparr> = ''m/foo''
   \<and> \<not> dirOrAncestor ''m/foo'' ''m/foobar''"
  by (simp add: GetLicenses_def sampleDS_def sampleModule_def derrors_Wrap_def licensePath_sample
      HasPrefix_def dirOrAncestor_def)

text \<open>
  C6. When the module is fetched and no license of it is kept, \<open>GetLicenses\<close> fails; the
  error wraps \<open>NotFound\<close> and carries the path and the module path. In no case does
  \<open>GetLicenses\<close> return the empty list.
\<close>

theorem GetLicenses_empty_NotFound:
  "(getModule ds modulePath version = Inr m \<and>
      filterLicenses fullPath modulePath (mod_Licenses m) = [] \<longrightarrow>
      GetLicenses ds fullPath modulePath version =
        Inl (Errorf ''GetLicenses(%q, %q, %q)'' [fullPath, modulePath, version]
              (Errorf ''path %s is missing from module %s: %w'' [fullPath, modulePath] NotFound))
      \<and> (\<exists>e. GetLicenses ds fullPath modulePath version = Inl e \<and> errors_Is e NotFound))
   \<and> GetLicenses ds fullPath modulePath version \<noteq> Inr []"
  by (auto simp: GetLicenses_def derrors_Wrap_def Let_def split: sum.splits)

theorem GetLicenses_empty_NotFound_witness:
  "getModule sampleDS ''m'' ''v1.0.0'' = Inr sampleModule \<and>
   filterLicenses ''m/bar'' ''m'' (mod_Licenses sampleModule) = [] \<and>
   (\<exists>e. GetLicenses sampleDS ''m/bar'' ''m'' ''v1.0.0'' = Inl e \<and> errors_Is e NotFound)"
proof -
  have g: "getModule sampleDS ''m'' ''v1.0.0'' = Inr sampleModule"
    by (simp add: sampleDS_def)
  have f: "filterLicenses ''m/bar'' ''m'' (mod_Licenses sampleModule) = []"
    by (simp add: sampleModule_def licensePath_sample HasPrefix_def)
  from GetLicenses_empty_NotFound [of sampleDS "''m''" "''v1.0.0''" sampleModule "''m/bar''"] g f
  show ?thesis by blast
qed

text \<open>
  A \<open>PathInfo\<close> that \<open>GetPathInfo\<close> returns: where its path, module path and version
  come from.
\<close>

lemma copyUnit_fields [simp]:
  "pi_Path (copyUnit path us pi) = pi_Path pi"
  "pi_ModulePath (copyUnit path us pi) = pi_ModulePath pi"
  "pi_Version (copyUnit path us pi) = pi_Version pi"
  by (induction us) auto

lemma newPathInfo_Inr:
  "newPathInfo ds path mp v = Inr pi \<Longrightarrow>
     pi_Path pi = path \<and> pi_ModulePath pi = mp \<and> pi_Version pi = v \<and>
     (\<exists>m. getModule ds mp v = Inr m)"
  by (auto simp: newPathInfo_def split: sum.splits)

lemma GetPathInfo_Inr:
  assumes "GetPathInfo ds path inModulePath inVersion = Inr pi"
  shows "pi_Path pi = path"
    and "inModulePath \<noteq> internal_UnknownModulePath \<Longrightarrow>
           pi_ModulePath pi = inModulePath \<and> pi_Version pi = inVersion"
    and "inModulePath = internal_UnknownModulePath \<Longrightarrow>
           \<exists>info. findModule ds path inVersion = Inr (pi_ModulePath pi, info) \<and>
                  pi_Version pi = vi_Version info"
  using assms
  by (auto simp: GetPathInfo_def split: if_splits sum.splits prod.splits dest: newPathInfo_Inr)

lemma sample_unknown:
  "GetPathInfo sampleDS ''m/foo'' internal_UnknownModulePath internal_LatestVersion =
     Inr \<lparr>pi_Path = ''m/foo'', pi_ModulePath = ''m'', pi_Version = ''v1.0.0'',
          pi_Name = ''foo'', pi_IsRedistributable = True\<rparr>"
  by (simp add: GetPathInfo_def newPathInfo_def sampleDS_def sampleModule_def HasPrefix_def)

lemma sample_known:
  "GetPathInfo sampleDS ''m/foo'' ''m'' ''v1.0.0'' =
     Inr \<lparr>pi_Path = ''m/foo'', pi_ModulePath = ''m'', pi_Version = ''v1.0.0'',
          pi_Name = ''foo'', pi_IsRedistributable = True\<rparr>"
  by (simp add: GetPathInfo_def newPathInfo_def sampleDS_def sampleModule_def
      internal_UnknownModulePath_def)

text \<open>
  C4. A failure of \<open>findModule\<close> is the failure of \<open>GetPathInfo\<close>, wrapped. A returned
  \<open>PathInfo\<close> has, for the unknown module path, the module path and the version that
  \<open>findModule\<close> gave; for any other module path it has this module path and the version
  of the call, unchanged. So its module path is not the sentinel unless \<open>findModule\<close> returns
  the sentinel, and its version is not the pseudo-version \<open>latest\<close> unless \<open>findModule\<close>
  gave it or it is the version of a call with a known module path.
\<close>

theorem GetPathInfo_resolution:
  "(inModulePath = internal_UnknownModulePath \<and> findModule ds path inVersion = Inl e \<longrightarrow>
      GetPathInfo ds path inModulePath inVersion =
        Inl (Errorf ''GetPathInfo(%q, %q, %q)'' [path, inModulePath, inVersion] e))
   \<and> (GetPathInfo ds path inModulePath inVersion = Inr pi \<longrightarrow>
        (inModulePath = internal_UnknownModulePath \<longrightarrow>
           (\<exists>info. findModule ds path inVersion = Inr (pi_ModulePath pi, info) \<and>
                   pi_Version pi = vi_Version info))
        \<and> (inModulePath \<noteq> internal_UnknownModulePath \<longrightarrow>
             pi_ModulePath pi = inModulePath \<and> pi_Version pi = inVersion \<and>
             pi_ModulePath pi \<noteq> internal_UnknownModulePath)
        \<and> ((\<forall>mp info. findModule ds path inVersion = Inr (mp, info) \<longrightarrow>
                mp \<noteq> internal_UnknownModulePath) \<longrightarrow>
             pi_ModulePath pi \<noteq> internal_UnknownModulePath)
        \<and> ((\<forall>mp info. findModule ds path inVersion = Inr (mp, info) \<longrightarrow>
                vi_Version info \<noteq> internal_LatestVersion) \<and>
            (inModulePath \<noteq> internal_UnknownModulePath \<longrightarrow>
               inVersion \<noteq> internal_LatestVersion) \<longrightarrow>
             pi_Version pi \<noteq> internal_LatestVersion))"
proof (intro conjI impI)
  assume "inModulePath = internal_UnknownModulePath \<and> findModule ds path inVersion = Inl e"
  then show "GetPathInfo ds path inModulePath inVersion =
        Inl (Errorf ''GetPathInfo(%q, %q, %q)'' [path, inModulePath, inVersion] e)"
    by (simp add: GetPathInfo_def)
next
  assume ok: "GetPathInfo ds path inModulePath inVersion = Inr pi"
  note r = GetPathInfo_Inr [OF ok]
  {
    assume "inModulePath = internal_UnknownModulePath"
    then show "\<exists>info. findModule ds path inVersion = Inr (pi_ModulePath pi, info) \<and>
                   pi_Version pi = vi_Version info"
      using r(3) by simp
  next
    assume "inModulePath \<noteq> internal_UnknownModulePath"
    then show "pi_ModulePath pi = inModulePath" "pi_Version pi = inVersion"
      "pi_ModulePath pi \<noteq> internal_UnknownModulePath"
      using r(2) by simp_all
  next
    assume "\<forall>mp info. findModule ds path inVersion = Inr (mp, info) \<longrightarrow>
                mp \<noteq> internal_UnknownModulePath"
    then show "pi_ModulePath pi \<noteq> internal_UnknownModulePath"
      using r(2) r(3) by (cases "inModulePath = internal_UnknownModulePath") auto
  next
    assume "(\<forall>mp info. findModule ds path inVersion = Inr (mp, info) \<longrightarrow>
                vi_Version info \<noteq> internal_LatestVersion) \<and>
            (inModulePath \<noteq> internal_UnknownModulePath \<longrightarrow>
               inVersion \<noteq> internal_LatestVersion)"
    then show "pi_Version pi \<noteq> internal_LatestVersion"
      using r(2) r(3) by (cases "inModulePath = internal_UnknownModulePath") auto
  }
qed

text \<open>
  Against C4 as it is written: with a known module path the pseudo-version \<open>latest\<close> is
  handed to \<open>getModule\<close> and comes back in the \<open>PathInfo\<close> as it went in.
\<close>

theorem GetPathInfo_passes_latest_through:
  "GetPathInfo sampleDS ''m/foo'' ''m'' internal_LatestVersion =
     Inr \<lparr>pi_Path = ''m/foo'', pi_ModulePath = ''m'', pi_Version = internal_LatestVersion,
          pi_Name = ''foo'', pi_IsRedistributable = True\<rparr>"
  by (simp add: GetPathInfo_def newPathInfo_def sampleDS_def sampleModule_def
      internal_UnknownModulePath_def)

theorem GetPathInfo_resolution_witness:
  "(findModule sampleDS ''x/y'' ''v1.0.0'' =
      Inl (Errorf ''unable to find module: %w'' [] NotFound) \<and>
    GetPathInfo sampleDS ''x/y'' internal_UnknownModulePath ''v1.0.0'' =
      Inl (Errorf ''GetPathInfo(%q, %q, %q)'' [''x/y'', internal_UnknownModulePath, ''v1.0.0'']
            (Errorf ''unable to find module: %w'' [] NotFound)))
   \<and> (GetPathInfo sampleDS ''m/foo'' internal_UnknownModulePath internal_LatestVersion =
        Inr \<lparr>pi_Path = ''m/foo'', pi_ModulePath = ''m'', pi_Version = ''v1.0.0'',
             pi_Name = ''foo'', pi_IsRedistributable = True\<rparr> \<and>
      findModule sampleDS ''m/foo'' internal_LatestVersion =
        Inr (''m'', \<lparr>vi_Version = ''v1.0.0''\<rparr>) \<and>
      ''m'' \<noteq> internal_UnknownModulePath \<and> ''v1.0.0'' \<noteq> internal_LatestVersion)
   \<and> (GetPathInfo sampleDS ''m/foo'' ''m'' ''v1.0.0'' =
        Inr \<lparr>pi_Path = ''m/foo'', pi_ModulePath = ''m'', pi_Version = ''v1.0.0'',
             pi_Name = ''foo'', pi_IsRedistributable = True\<rparr>)"
proof -
  let ?pi = "\<lparr>pi_Path = ''m/foo'', pi_ModulePath = ''m'', pi_Version = ''v1.0.0'',
             pi_Name = ''foo'', pi_IsRedistributable = True\<rparr>"
  let ?e = "Errorf ''unable to find module: %w'' [] NotFound"
  have f: "findModule sampleDS ''x/y'' ''v1.0.0'' = Inl ?e"
    by (simp add: sampleDS_def HasPrefix_def)
  have g: "findModule sampleDS ''m/foo'' internal_LatestVersion =
        Inr (''m'', \<lparr>vi_Version = ''v1.0.0''\<rparr>)"
    by (simp add: sampleDS_def HasPrefix_def)
  have c: "''m'' \<noteq> internal_UnknownModulePath" "''v1.0.0'' \<noteq> internal_LatestVersion"
    by (simp_all add: internal_UnknownModulePath_def internal_LatestVersion_def)
  from GetPathInfo_resolution [of internal_UnknownModulePath sampleDS "''x/y''" "''v1.0.0''" ?e] f
  have one: "GetPathInfo sampleDS ''x/y'' internal_UnknownModulePath ''v1.0.0'' =
      Inl (Errorf ''GetPathInfo(%q, %q, %q)'' [''x/y'', internal_UnknownModulePath, ''v1.0.0''] ?e)"
    by blast
  have contract:
    "\<forall>mp info. findModule sampleDS ''m/foo'' internal_LatestVersion = Inr (mp, info) \<longrightarrow>
        mp \<noteq> internal_UnknownModulePath"
    "\<forall>mp info. findModule sampleDS ''m/foo'' internal_LatestVersion = Inr (mp, info) \<longrightarrow>
        vi_Version info \<noteq> internal_LatestVersion"
    using g c by simp_all
  from GetPathInfo_resolution
         [of internal_UnknownModulePath sampleDS "''m/foo''" internal_LatestVersion ?e ?pi]
       sample_unknown contract
  have two: "pi_ModulePath ?pi \<noteq> internal_UnknownModulePath \<and>
             pi_Version ?pi \<noteq> internal_LatestVersion"
    by blast
  from GetPathInfo_resolution [of "''m''" sampleDS "''m/foo''" "''v1.0.0''" ?e ?pi]
       sample_known c
  have three: "pi_ModulePath ?pi = ''m'' \<and> pi_Version ?pi = ''v1.0.0''"
    by blast
  from f g one two three sample_unknown sample_known show ?thesis by simp
qed

text \<open>
  C5. The \<open>PathInfo\<close> returned has the path of the call, and its module path is the module
  path of the call or, for the unknown module path, the one \<open>findModule\<close> returned.
  \<open>GetPathInfo\<close> compares the path with no module path: the record satisfies the
  containment invariant exactly when the path of the call lies in that module.
\<close>

theorem GetPathInfo_path_and_module:
  "GetPathInfo ds path inModulePath inVersion = Inr pi \<longrightarrow>
     pi_Path pi = path
     \<and> (inModulePath \<noteq> internal_UnknownModulePath \<longrightarrow>
          pi_ModulePath pi = inModulePath \<and>
          (containment pi \<longleftrightarrow>
             inModulePath = stdlib_ModulePath \<or> dirOrAncestor inModulePath path))
     \<and> (inModulePath = internal_UnknownModulePath \<longrightarrow>
          (\<exists>mp info. findModule ds path inVersion = Inr (mp, info) \<and>
             pi_ModulePath pi = mp \<and>
             (containment pi \<longleftrightarrow> mp = stdlib_ModulePath \<or> dirOrAncestor mp path)))"
proof
  assume ok: "GetPathInfo ds path inModulePath inVersion = Inr pi"
  note r = GetPathInfo_Inr [OF ok]
  have one: "pi_Path pi = path"
    by (rule r(1))
  have two: "pi_ModulePath pi = inModulePath \<and>
          (containment pi \<longleftrightarrow>
             inModulePath = stdlib_ModulePath \<or> dirOrAncestor inModulePath path)"
    if "inModulePath \<noteq> internal_UnknownModulePath"
    using r(1) r(2) [OF that] by (simp add: containment_def)
  have three: "\<exists>mp info. findModule ds path inVersion = Inr (mp, info) \<and>
             pi_ModulePath pi = mp \<and>
             (containment pi \<longleftrightarrow> mp = stdlib_ModulePath \<or> dirOrAncestor mp path)"
    if "inModulePath = internal_UnknownModulePath"
  proof -
    from r(3) [OF that] obtain info where
      "findModule ds path inVersion = Inr (pi_ModulePath pi, info)" by blast
    moreover have "containment pi \<longleftrightarrow>
        pi_ModulePath pi = stdlib_ModulePath \<or> dirOrAncestor (pi_ModulePath pi) path"
      using r(1) by (simp add: containment_def)
    ultimately show ?thesis by blast
  qed
  from one two three show "pi_Path pi = path
     \<and> (inModulePath \<noteq> internal_UnknownModulePath \<longrightarrow>
          pi_ModulePath pi = inModulePath \<and>
          (containment pi \<longleftrightarrow>
             inModulePath = stdlib_ModulePath \<or> dirOrAncestor inModulePath path))
     \<and> (inModulePath = internal_UnknownModulePath \<longrightarrow>
          (\<exists>mp info. findModule ds path inVersion = Inr (mp, info) \<and>
             pi_ModulePath pi = mp \<and>
             (containment pi \<longleftrightarrow> mp = stdlib_ModulePath \<or> dirOrAncestor mp path)))"
    by blast
qed

text \<open>
  Against C5 as it is written: a path outside the module \<open>m\<close> is accepted with the module
  path \<open>m\<close>, and the record returned breaks the invariant.
\<close>

theorem GetPathInfo_no_containment_check:
  "GetPathInfo sampleDS ''other/pkg'' ''m'' ''v1.0.0'' =
     Inr \<lparr>pi_Path = ''other/pkg'', pi_ModulePath = ''m'', pi_Version = ''v1.0.0'',
          pi_Name = [], pi_IsRedistributable = False\<rparr>
   \<and> \<not> containment \<lparr>pi_Path = ''other/pkg'', pi_ModulePath = ''m'', pi_Version = ''v1.0.0'',
          pi_Name = [], pi_IsRedistributable = False\<rparr>"
  by (simp add: GetPathInfo_def newPathInfo_def sampleDS_def sampleModule_def
      internal_UnknownModulePath_def containment_def dirOrAncestor_def HasPrefix_def
      stdlib_ModulePath_def)

theorem GetPathInfo_path_and_module_witness:
  "(GetPathInfo sampleDS ''m/foo'' ''m'' ''v1.0.0'' =
      Inr \<lparr>pi_Path = ''m/foo'', pi_ModulePath = ''m'', pi_Version = ''v1.0.0'',
           pi_Name = ''foo'', pi_IsRedistributable = True\<rparr>
    \<and> ''m'' \<noteq> internal_UnknownModulePath \<and> dirOrAncestor ''m'' ''m/foo''
    \<and> pi_ModulePath \<lparr>pi_Path = ''m/foo'', pi_ModulePath = ''m'', pi_Version = ''v1.0.0'',
           pi_Name = ''foo'', pi_IsRedistributable = True\<rparr> = ''m''
    \<and> containment \<lparr>pi_Path = ''m/foo'', pi_ModulePath = ''m'', pi_Version = ''v1.0.0'',
           pi_Name = ''foo'', pi_IsRedistributable = True\<rparr>)
   \<and> (GetPathInfo sampleDS ''m/foo'' internal_UnknownModulePath internal_LatestVersion =
        Inr \<lparr>pi_Path = ''m/foo'', pi_ModulePath = ''m'', pi_Version = ''v1.0.0'',
             pi_Name = ''foo'', pi_IsRedistributable = True\<rparr>
      \<and> findModule sampleDS ''m/foo'' internal_LatestVersion =
          Inr (''m'', \<lparr>vi_Version = ''v1.0.0''\<rparr>))"
proof -
  let ?pi = "\<lparr>pi_Path = ''m/foo'', pi_ModulePath = ''m'', pi_Version = ''v1.0.0'',
               pi_Name = ''foo'', pi_IsRedistributable = True\<rparr>"
  have c: "''m'' \<noteq> internal_UnknownModulePath"
    by (simp add: internal_UnknownModulePath_def)
  have d: "dirOrAncestor ''m'' ''m/foo''"
    by (simp add: dirOrAncestor_def HasPrefix_def)
  from GetPathInfo_path_and_module [of sampleDS "''m/foo''" "''m''" "''v1.0.0''" ?pi]
       sample_known c d
  have known: "pi_ModulePath ?pi = ''m'' \<and> containment ?pi"
    by blast
  from GetPathInfo_path_and_module
         [of sampleDS "''m/foo''" internal_UnknownModulePath internal_LatestVersion ?pi]
       sample_unknown
  obtain mp info where
    "findModule sampleDS ''m/foo'' internal_LatestVersion = Inr (mp, info)"
    "pi_ModulePath ?pi = mp"
    by blast
  then have unknown: "findModule sampleDS ''m/foo'' internal_LatestVersion =
      Inr (''m'', \<lparr>vi_Version = ''v1.0.0''\<rparr>)"
    by (simp add: sampleDS_def HasPrefix_def)
  from sample_known sample_unknown c d known unknown show ?thesis by blast
qed

section \<open>Properties of the directory functions\<close>

lemma TrimPrefix_append [simp]: "TrimPrefix (pre @ s) pre = s"
  by (simp add: TrimPrefix_def HasPrefix_def)

lemma TrimPrefix_other: "\<not> HasPrefix s pre \<Longrightarrow> TrimPrefix s pre = s"
  by (simp add: TrimPrefix_def)

text \<open>
  C3. The three cases of \<open>constructDirectoryURL\<close>. In the last one the suffix is what
  \<open>strings.TrimPrefix\<close> leaves: the rest of \<open>dirPath\<close> after the module path and a slash,
  or all of \<open>dirPath\<close> when it does not begin so.
\<close>

theorem constructDirectoryURL_cases:
  "(linkVersion' = internal_LatestVersion \<longrightarrow>
      constructDirectoryURL dirPath modulePath linkVersion' = ''/'' @ dirPath)
   \<and> (linkVersion' \<noteq> internal_LatestVersion \<and>
        (dirPath = modulePath \<or> modulePath = stdlib_ModulePath) \<longrightarrow>
        constructDirectoryURL dirPath modulePath linkVersion' = ''/'' @ dirPath @ ''@'' @ linkVersion')
   \<and> (linkVersion' \<noteq> internal_LatestVersion \<and> dirPath \<noteq> modulePath \<and>
        modulePath \<noteq> stdlib_ModulePath \<longrightarrow>
        constructDirectoryURL dirPath modulePath linkVersion' =
          ''/'' @ modulePath @ ''@'' @ linkVersion' @ ''/'' @ TrimPrefix dirPath (modulePath @ ''/'')
        \<and> (\<forall>suffix. dirPath = modulePath @ ''/'' @ suffix \<longrightarrow>
              constructDirectoryURL dirPath modulePath linkVersion' =
                ''/'' @ modulePath @ ''@'' @ linkVersion' @ ''/'' @ suffix)
        \<and> (\<not> HasPrefix dirPath (modulePath @ ''/'') \<longrightarrow>
              constructDirectoryURL dirPath modulePath linkVersion' =
                ''/'' @ modulePath @ ''@'' @ linkVersion' @ ''/'' @ dirPath))"
proof -
  have "TrimPrefix (modulePath @ ''/'' @ suffix) (modulePath @ ''/'') = suffix" for suffix
    using TrimPrefix_append [of "modulePath @ ''/''" suffix] by simp
  then show ?thesis
    by (auto simp: constructDirectoryURL_def TrimPrefix_other)
qed

theorem constructDirectoryURL_cases_witness:
  "constructDirectoryURL ''m/foo'' ''m'' internal_LatestVersion = ''/m/foo''
   \<and> ''v1.0.0'' \<noteq> internal_LatestVersion
   \<and> constructDirectoryURL ''m'' ''m'' ''v1.0.0'' = ''/m@v1.0.0''
   \<and> constructDirectoryURL ''net/http'' stdlib_ModulePath ''v1.0.0'' = ''/net/http@v1.0.0''
   \<and> ''m/foo'' \<noteq> ''m'' \<and> ''m'' \<noteq> stdlib_ModulePath
   \<and> constructDirectoryURL ''m/foo'' ''m'' ''v1.0.0'' = ''/m@v1.0.0/foo''
   \<and> \<not> HasPrefix ''other'' (''m'' @ ''/'')
   \<and> constructDirectoryURL ''other'' ''m'' ''v1.0.0'' = ''/m@v1.0.0/other''"
proof -
  have v: "''v1.0.0'' \<noteq> internal_LatestVersion" "''m'' \<noteq> stdlib_ModulePath"
    "\<not> HasPrefix ''other'' (''m'' @ ''/'')"
    by (simp_all add: internal_LatestVersion_def stdlib_ModulePath_def HasPrefix_def)
  from constructDirectoryURL_cases [of internal_LatestVersion "''m/foo''" "''m''"]
  have a: "constructDirectoryURL ''m/foo'' ''m'' internal_LatestVersion = ''/m/foo''" by simp
  from constructDirectoryURL_cases [of "''v1.0.0''" "''m''" "''m''"] v
  have b: "constructDirectoryURL ''m'' ''m'' ''v1.0.0'' = ''/m@v1.0.0''" by simp
  from constructDirectoryURL_cases [of "''v1.0.0''" "''net/http''" stdlib_ModulePath] v
  have c: "constructDirectoryURL ''net/http'' stdlib_ModulePath ''v1.0.0'' = ''/net/http@v1.0.0''"
    by simp
  from constructDirectoryURL_cases [of "''v1.0.0''" "''m/foo''" "''m''"] v
  have d: "constructDirectoryURL ''m/foo'' ''m'' ''v1.0.0'' = ''/m@v1.0.0/foo''"
    by (simp add: TrimPrefix_def HasPrefix_def)
  from constructDirectoryURL_cases [of "''v1.0.0''" "''other''" "''m''"] v
  have e: "constructDirectoryURL ''other'' ''m'' ''v1.0.0'' = ''/m@v1.0.0/other''"
    by (simp add: TrimPrefix_def HasPrefix_def)
  from a b c d e v show ?thesis by simp
qed

text \<open>
  The loop of \<open>createDirectory\<close> keeps the order of the input and passes over nothing but
  the packages at \<open>dirPath\<close>.
\<close>

lemma createPackages_paths:
  assumes "\<forall>pm p. createPackage h pm mi False = Inr p \<longrightarrow> pkg_Path p = pm_Path pm"
      and "createPackages h dirPath mi includeDirPath pkgMetas = Inr packages"
  shows "map (\<lambda>p. (pkg_Path p, pkg_Synopsis p)) packages =
         map (\<lambda>pm. (pm_Path pm, pm_Synopsis pm))
           (filter (\<lambda>pm. \<not> (\<not> includeDirPath \<and> pm_Path pm = dirPath)) pkgMetas)"
  using assms
proof (induction pkgMetas arbitrary: packages)
  case Nil
  then show ?case by simp
next
  case (Cons pm rest)
  show ?case
  proof (cases "\<not> includeDirPath \<and> pm_Path pm = dirPath")
    case True
    with Cons show ?thesis by simp
  next
    case False
    with Cons.prems(2) obtain newPkg ps where
      np: "createPackage h pm mi False = Inr newPkg" and
      ps: "createPackages h dirPath mi includeDirPath rest = Inr ps" and
      pk: "packages =
             (let newPkg1 = newPkg\<lparr>pkg_PathAfterDirectory := internal_Suffix h (pm_Path pm) dirPath,
                                   pkg_Synopsis := pm_Synopsis pm\<rparr>
              in if pkg_PathAfterDirectory newPkg1 = []
                 then newPkg1\<lparr>pkg_PathAfterDirectory :=
                        effectiveName h (pm_Path pm) (pm_Name pm) @ '' (root)''\<rparr>
                 else newPkg1) # ps"
      by (auto simp: Let_def split: sum.splits if_splits)
    from np Cons.prems(1) have "pkg_Path newPkg = pm_Path pm" by blast
    moreover note Cons.IH [OF Cons.prems(1) ps]
    ultimately show ?thesis using False pk by (auto simp: Let_def)
  qed
qed

lemma createPackages_synopses:
  "createPackages h dirPath mi includeDirPath pkgMetas = Inr packages \<Longrightarrow>
     map pkg_Synopsis packages =
       map pm_Synopsis
         (filter (\<lambda>pm. \<not> (\<not> includeDirPath \<and> pm_Path pm = dirPath)) pkgMetas)"
  by (induction pkgMetas arbitrary: packages)
     (auto simp: Let_def split: sum.splits if_splits)

lemma createPackages_succeeds:
  "\<forall>pm \<in> set pkgMetas. \<not> (\<not> includeDirPath \<and> pm_Path pm = dirPath) \<longrightarrow>
       (\<exists>p. createPackage h pm mi False = Inr p) \<Longrightarrow>
   \<exists>packages. createPackages h dirPath mi includeDirPath pkgMetas = Inr packages"
  by (induction pkgMetas) (auto simp: Let_def split: sum.splits)

lemma sample_sorted:
  "createDirectory sampleHelpers ''m/foo'' \<lparr>mi_ModulePath = ''m'', mi_Version = ''v1.0.0''\<rparr>
     samplePackages [] False =
   Inr \<lparr>dir_DirectoryHeader =
          \<lparr>dh_Module = ''m'', dh_Path = ''m/foo'', dh_URL = ''/m@v1.0.0/foo''\<rparr>,
        dir_Packages =
          [\<lparr>pkg_Path = ''m/foo/a'', pkg_PathAfterDirectory = ''a'', pkg_Synopsis = ''first''\<rparr>,
           \<lparr>pkg_Path = ''m/foo/z'', pkg_PathAfterDirectory = ''z'', pkg_Synopsis = ''last''\<rparr>]\<rparr>"
  by (simp add: createDirectory_def createDirectoryHeader_def constructDirectoryURL_def
      sampleHelpers_def samplePackages_def TrimPrefix_def HasPrefix_def
      internal_LatestVersion_def stdlib_ModulePath_def less_eq_char_def less_char_def)

lemma sample_sorted_incl:
  "createDirectory sampleHelpers ''m'' \<lparr>mi_ModulePath = ''m'', mi_Version = ''v1.0.0''\<rparr>
     [\<lparr>pm_Path = ''m/foo'', pm_Name = ''foo'', pm_Synopsis = ''sub''\<rparr>,
      \<lparr>pm_Path = ''m'', pm_Name = ''main'', pm_Synopsis = ''root''\<rparr>] [] True =
   Inr \<lparr>dir_DirectoryHeader =
          \<lparr>dh_Module = ''m'', dh_Path = ''m'', dh_URL = ''/m@v1.0.0''\<rparr>,
        dir_Packages =
          [\<lparr>pkg_Path = ''m'', pkg_PathAfterDirectory = ''main (root)'', pkg_Synopsis = ''root''\<rparr>,
           \<lparr>pkg_Path = ''m/foo'', pkg_PathAfterDirectory = ''foo'', pkg_Synopsis = ''sub''\<rparr>]\<rparr>"
  by (simp add: createDirectory_def createDirectoryHeader_def constructDirectoryURL_def
      sampleHelpers_def samplePackages_def TrimPrefix_def HasPrefix_def
      internal_LatestVersion_def stdlib_ModulePath_def less_eq_char_def less_char_def)

text \<open>
  C9. The packages of a directory that \<open>createDirectory\<close> returns are sorted by path, and
  they are as many as the packages of the input that are not passed over, with their
  synopses. Let \<open>createPackage\<close> give a package the path of its \<open>PackageMeta\<close>: then they
  are, entry for entry, the packages of the input that are not passed over, each with its
  path and synopsis, and without \<open>includeDirPath\<close> none of them is at \<open>dirPath\<close>.
\<close>

theorem createDirectory_packages:
  assumes "createDirectory h dirPath mi pkgMetas licmetas includeDirPath = Inr d"
  shows "sorted (map pkg_Path (dir_Packages d))
         \<and> mset (map pkg_Synopsis (dir_Packages d)) =
             mset (map pm_Synopsis
               (filter (\<lambda>pm. \<not> (\<not> includeDirPath \<and> pm_Path pm = dirPath)) pkgMetas))
         \<and> ((\<forall>pm p. createPackage h pm mi False = Inr p \<longrightarrow> pkg_Path p = pm_Path pm) \<longrightarrow>
              mset (map (\<lambda>p. (pkg_Path p, pkg_Synopsis p)) (dir_Packages d)) =
                mset (map (\<lambda>pm. (pm_Path pm, pm_Synopsis pm))
                  (filter (\<lambda>pm. \<not> (\<not> includeDirPath \<and> pm_Path pm = dirPath)) pkgMetas))
              \<and> (\<not> includeDirPath \<longrightarrow> dirPath \<notin> pkg_Path ` set (dir_Packages d)))"
proof -
  from assms obtain packages where
    ps: "createPackages h dirPath mi includeDirPath pkgMetas = Inr packages" and
    d: "dir_Packages d = sort_key pkg_Path packages"
    by (auto simp: createDirectory_def split: sum.splits)
  let ?kept = "filter (\<lambda>pm. \<not> (\<not> includeDirPath \<and> pm_Path pm = dirPath)) pkgMetas"
  have one: "sorted (map pkg_Path (dir_Packages d))"
    by (simp add: d)
  have "mset (map pkg_Synopsis (dir_Packages d)) = mset (map pkg_Synopsis packages)"
    by (simp add: d)
  then have two: "mset (map pkg_Synopsis (dir_Packages d)) = mset (map pm_Synopsis ?kept)"
    using createPackages_synopses [OF ps] by simp
  have three: "mset (map (\<lambda>p. (pkg_Path p, pkg_Synopsis p)) (dir_Packages d)) =
                 mset (map (\<lambda>pm. (pm_Path pm, pm_Synopsis pm)) ?kept)
               \<and> (\<not> includeDirPath \<longrightarrow> dirPath \<notin> pkg_Path ` set (dir_Packages d))"
    if c: "\<forall>pm p. createPackage h pm mi False = Inr p \<longrightarrow> pkg_Path p = pm_Path pm"
  proof -
    have m: "map (\<lambda>p. (pkg_Path p, pkg_Synopsis p)) packages =
             map (\<lambda>pm. (pm_Path pm, pm_Synopsis pm)) ?kept"
      by (rule createPackages_paths [OF c ps])
    have "mset (map (\<lambda>p. (pkg_Path p, pkg_Synopsis p)) (dir_Packages d)) =
          mset (map (\<lambda>p. (pkg_Path p, pkg_Synopsis p)) packages)"
      by (simp add: d)
    with m have a: "mset (map (\<lambda>p. (pkg_Path p, pkg_Synopsis p)) (dir_Packages d)) =
          mset (map (\<lambda>pm. (pm_Path pm, pm_Synopsis pm)) ?kept)"
      by simp
    have "pkg_Path ` set (dir_Packages d) =
          fst ` set (map (\<lambda>p. (pkg_Path p, pkg_Synopsis p)) packages)"
      by (force simp: d)
    also have "\<dots> = pm_Path ` set ?kept"
      unfolding m by force
    finally have "\<not> includeDirPath \<longrightarrow> dirPath \<notin> pkg_Path ` set (dir_Packages d)"
      by auto
    with a show ?thesis by blast
  qed
  from one two three show ?thesis by blast
qed

theorem createDirectory_packages_witness:
  "createDirectory sampleHelpers ''m/foo'' \<lparr>mi_ModulePath = ''m'', mi_Version = ''v1.0.0''\<rparr>
        samplePackages [] False =
      Inr \<lparr>dir_DirectoryHeader =
             \<lparr>dh_Module = ''m'', dh_Path = ''m/foo'', dh_URL = ''/m@v1.0.0/foo''\<rparr>,
           dir_Packages =
             [\<lparr>pkg_Path = ''m/foo/a'', pkg_PathAfterDirectory = ''a'', pkg_Synopsis = ''first''\<rparr>,
              \<lparr>pkg_Path = ''m/foo/z'', pkg_PathAfterDirectory = ''z'', pkg_Synopsis = ''last''\<rparr>]\<rparr>
   \<and> sorted [''m/foo/a'', ''m/foo/z'']
   \<and> ''m/foo'' \<notin> {''m/foo/a'', ''m/foo/z''}"
proof -
  let ?mi = "\<lparr>mi_ModulePath = ''m'', mi_Version = ''v1.0.0''\<rparr>"
  let ?d = "\<lparr>dir_DirectoryHeader =
             \<lparr>dh_Module = ''m'', dh_Path = ''m/foo'', dh_URL = ''/m@v1.0.0/foo''\<rparr>,
           dir_Packages =
             [\<lparr>pkg_Path = ''m/foo/a'', pkg_PathAfterDirectory = ''a'', pkg_Synopsis = ''first''\<rparr>,
              \<lparr>pkg_Path = ''m/foo/z'', pkg_PathAfterDirectory = ''z'', pkg_Synopsis = ''last''\<rparr>]\<rparr>"
  have c: "\<forall>pm p. createPackage sampleHelpers pm ?mi False = Inr p \<longrightarrow> pkg_Path p = pm_Path pm"
    by (auto simp: sampleHelpers_def split: if_splits)
  have "sorted (map pkg_Path (dir_Packages ?d))
        \<and> (\<not> False \<longrightarrow> ''m/foo'' \<notin> pkg_Path ` set (dir_Packages ?d))"
    using createDirectory_packages [OF sample_sorted] c by blast
  then have "sorted [''m/foo/a'', ''m/foo/z'']" "''m/foo'' \<notin> {''m/foo/a'', ''m/foo/z''}"
    by simp_all
  with sample_sorted show ?thesis by blast
qed

text \<open>
  C10. Over the proxy data source \<open>fetchDirectoryDetails\<close> fails with the unsupported
  error, wrapped, whatever the directory and whatever \<open>includeDirPath\<close>; the error is not an
  \<open>InvalidArgument\<close>.
\<close>

theorem fetchDirectoryDetails_proxy_unsupported:
  "fetchDirectoryDetails h (ProxyDataSource x) dmeta includeDirPath =
     Inl (Errorf ''fetchDirectoryDetails(%q, %q, %q, %v)''
            [dm_Path dmeta, mi_ModulePath (dm_ModuleInfo dmeta), mi_Version (dm_ModuleInfo dmeta)]
            proxydatasourceNotSupportedErr)
   \<and> errors_Is (Errorf ''fetchDirectoryDetails(%q, %q, %q, %v)''
            [dm_Path dmeta, mi_ModulePath (dm_ModuleInfo dmeta), mi_Version (dm_ModuleInfo dmeta)]
            proxydatasourceNotSupportedErr) proxydatasourceNotSupportedErr
   \<and> \<not> errors_Is (Errorf ''fetchDirectoryDetails(%q, %q, %q, %v)''
            [dm_Path dmeta, mi_ModulePath (dm_ModuleInfo dmeta), mi_Version (dm_ModuleInfo dmeta)]
            proxydatasourceNotSupportedErr) InvalidArgument"
  by (simp add: fetchDirectoryDetails_def proxydatasourceNotSupportedErr_def)

theorem fetchDirectoryDetails_proxy_unsupported_witness:
  "fetchDirectoryDetails sampleHelpers (ProxyDataSource sampleDS) (sampleMeta ''m/foo'') True =
     Inl (Errorf ''fetchDirectoryDetails(%q, %q, %q, %v)'' [''m/foo'', ''m'', ''v1.0.0'']
            proxydatasourceNotSupportedErr)"
  using fetchDirectoryDetails_proxy_unsupported
          [of sampleHelpers sampleDS "sampleMeta ''m/foo''" True]
  by (simp add: sampleMeta_def)

text \<open>
  C7. Over the database, \<open>includeDirPath\<close> with a directory that is neither the module
  path nor the standard library fails with an error that wraps \<open>InvalidArgument\<close>.
\<close>

theorem fetchDirectoryDetails_invalid_includeDirPath:
  "includeDirPath \<and> dm_Path dmeta \<noteq> mi_ModulePath (dm_ModuleInfo dmeta) \<and>
     dm_Path dmeta \<noteq> stdlib_ModulePath \<longrightarrow>
   fetchDirectoryDetails h (PostgresDB db) dmeta includeDirPath =
     Inl (Errorf ''fetchDirectoryDetails(%q, %q, %q, %v)''
            [dm_Path dmeta, mi_ModulePath (dm_ModuleInfo dmeta), mi_Version (dm_ModuleInfo dmeta)]
            (Errorf ''includeDirPath can only be set to true if dirPath = modulePath: %w'' []
               InvalidArgument))
   \<and> (\<exists>e. fetchDirectoryDetails h (PostgresDB db) dmeta includeDirPath = Inl e \<and>
          errors_Is e InvalidArgument)"
  by (simp add: fetchDirectoryDetails_def)

theorem fetchDirectoryDetails_invalid_includeDirPath_witness:
  "dm_Path (sampleMeta ''m/foo'') \<noteq> mi_ModulePath (dm_ModuleInfo (sampleMeta ''m/foo'')) \<and>
   dm_Path (sampleMeta ''m/foo'') \<noteq> stdlib_ModulePath \<and>
   (\<exists>e. fetchDirectoryDetails sampleHelpers (PostgresDB sampleDB) (sampleMeta ''m/foo'') True =
          Inl e \<and> errors_Is e InvalidArgument)"
proof -
  have a: "dm_Path (sampleMeta ''m/foo'') \<noteq> mi_ModulePath (dm_ModuleInfo (sampleMeta ''m/foo''))"
    and b: "dm_Path (sampleMeta ''m/foo'') \<noteq> stdlib_ModulePath"
    by (simp_all add: sampleMeta_def stdlib_ModulePath_def)
  from fetchDirectoryDetails_invalid_includeDirPath
         [of True "sampleMeta ''m/foo''" sampleHelpers sampleDB] a b
  show ?thesis by blast
qed

text \<open>
  Against C7 as it is written: over the proxy data source the same call fails with the
  unsupported error, which is no \<open>InvalidArgument\<close>.
\<close>

theorem fetchDirectoryDetails_proxy_not_InvalidArgument:
  "fetchDirectoryDetails sampleHelpers (ProxyDataSource sampleDS) (sampleMeta ''m/foo'') True =
     Inl (Errorf ''fetchDirectoryDetails(%q, %q, %q, %v)'' [''m/foo'', ''m'', ''v1.0.0'']
            Unsupported)
   \<and> \<not> errors_Is (Errorf ''fetchDirectoryDetails(%q, %q, %q, %v)'' [''m/foo'', ''m'', ''v1.0.0'']
            Unsupported) InvalidArgument"
  by (simp add: fetchDirectoryDetails_def proxydatasourceNotSupportedErr_def sampleMeta_def)

text \<open>
  C8. When the call reaches \<open>GetPackagesInUnit\<close> and it fails: with a \<open>NotFound\<close> error
  the result is the directory of the header alone, its path and URL filled in and no
  packages; any other error is returned, wrapped.
\<close>

theorem fetchDirectoryDetails_no_packages:
  "GetPackagesInUnit db (dm_Path dmeta) (mi_ModulePath (dm_ModuleInfo dmeta))
       (mi_Version (dm_ModuleInfo dmeta)) = Inl e \<and>
   \<not> (includeDirPath \<and> dm_Path dmeta \<noteq> mi_ModulePath (dm_ModuleInfo dmeta) \<and>
        dm_Path dmeta \<noteq> stdlib_ModulePath) \<longrightarrow>
   (errors_Is e NotFound \<longrightarrow>
      fetchDirectoryDetails h (PostgresDB db) dmeta includeDirPath =
        Inr \<lparr>dir_DirectoryHeader =
               \<lparr>dh_Module = createModule h (dm_ModuleInfo dmeta) (dm_Licenses dmeta) False,
                dh_Path = dm_Path dmeta,
                dh_URL = constructDirectoryURL (dm_Path dmeta)
                           (mi_ModulePath (dm_ModuleInfo dmeta))
                           (linkVersion h (mi_Version (dm_ModuleInfo dmeta))
                              (mi_ModulePath (dm_ModuleInfo dmeta)))\<rparr>,
             dir_Packages = []\<rparr>)
   \<and> (\<not> errors_Is e NotFound \<longrightarrow>
        fetchDirectoryDetails h (PostgresDB db) dmeta includeDirPath =
          Inl (Errorf ''fetchDirectoryDetails(%q, %q, %q, %v)''
                 [dm_Path dmeta, mi_ModulePath (dm_ModuleInfo dmeta),
                  mi_Version (dm_ModuleInfo dmeta)] e))"
  by (auto simp: fetchDirectoryDetails_def createDirectoryHeader_def)

theorem fetchDirectoryDetails_no_packages_witness:
  "(GetPackagesInUnit sampleDB ''m/empty'' ''m'' ''v1.0.0'' =
      Inl (Errorf ''GetPackagesInUnit: %w'' [] NotFound)
    \<and> errors_Is (Errorf ''GetPackagesInUnit: %w'' [] NotFound) NotFound
    \<and> fetchDirectoryDetails sampleHelpers (PostgresDB sampleDB) (sampleMeta ''m/empty'') False =
        Inr \<lparr>dir_DirectoryHeader =
               \<lparr>dh_Module = ''m'', dh_Path = ''m/empty'', dh_URL = ''/m@v1.0.0/empty''\<rparr>,
             dir_Packages = []\<rparr>)
   \<and> (GetPackagesInUnit sampleDB ''m/broken'' ''m'' ''v1.0.0'' =
        Inl (ErrorString ''connection refused'')
      \<and> \<not> errors_Is (ErrorString ''connection refused'') NotFound
      \<and> fetchDirectoryDetails sampleHelpers (PostgresDB sampleDB) (sampleMeta ''m/broken'') False =
          Inl (Errorf ''fetchDirectoryDetails(%q, %q, %q, %v)'' [''m/broken'', ''m'', ''v1.0.0'']
                 (ErrorString ''connection refused'')))"
proof -
  have a: "GetPackagesInUnit sampleDB (dm_Path (sampleMeta ''m/empty''))
             (mi_ModulePath (dm_ModuleInfo (sampleMeta ''m/empty'')))
             (mi_Version (dm_ModuleInfo (sampleMeta ''m/empty''))) =
           Inl (Errorf ''GetPackagesInUnit: %w'' [] NotFound)"
    by (simp add: sampleDB_def sampleMeta_def)
  have b: "GetPackagesInUnit sampleDB (dm_Path (sampleMeta ''m/broken''))
             (mi_ModulePath (dm_ModuleInfo (sampleMeta ''m/broken'')))
             (mi_Version (dm_ModuleInfo (sampleMeta ''m/broken''))) =
           Inl (ErrorString ''connection refused'')"
    by (simp add: sampleDB_def sampleMeta_def)
  have c: "errors_Is (Errorf ''GetPackagesInUnit: %w'' [] NotFound) NotFound"
    "\<not> errors_Is (ErrorString ''connection refused'') NotFound"
    by simp_all
  from fetchDirectoryDetails_no_packages
         [of sampleDB "sampleMeta ''m/empty''" "Errorf ''GetPackagesInUnit: %w'' [] NotFound"
             False sampleHelpers] a c
  have one: "fetchDirectoryDetails sampleHelpers (PostgresDB sampleDB) (sampleMeta ''m/empty'') False =
        Inr \<lparr>dir_DirectoryHeader =
               \<lparr>dh_Module = ''m'', dh_Path = ''m/empty'', dh_URL = ''/m@v1.0.0/empty''\<rparr>,
             dir_Packages = []\<rparr>"
    by (simp add: sampleMeta_def sampleHelpers_def constructDirectoryURL_def TrimPrefix_def
        HasPrefix_def internal_LatestVersion_def stdlib_ModulePath_def)
  from fetchDirectoryDetails_no_packages
         [of sampleDB "sampleMeta ''m/broken''" "ErrorString ''connection refused''"
             False sampleHelpers] b c
  have two: "fetchDirectoryDetails sampleHelpers (PostgresDB sampleDB) (sampleMeta ''m/broken'') False =
          Inl (Errorf ''fetchDirectoryDetails(%q, %q, %q, %v)'' [''m/broken'', ''m'', ''v1.0.0'']
                 (ErrorString ''connection refused''))"
    by (simp add: sampleMeta_def)
  from a b c one two show ?thesis by (simp add: sampleMeta_def)
qed

section \<open>Properties of the badge rewrite\<close>

text \<open>
  A token that begins nowhere in a text is found at none of its places, whatever follows
  the text behind enough of it.
\<close>

lemma HasPrefix_Cons: "HasPrefix (c # cs) (x # xs) \<longleftrightarrow> c = x \<and> HasPrefix cs xs"
  by (simp add: HasPrefix_def)

lemma HasPrefix_Nil [simp]: "HasPrefix s []"
  by (simp add: HasPrefix_def)

lemma HasPrefix_append [simp]: "HasPrefix (pre @ s) pre"
  by (simp add: HasPrefix_def)

lemma HasPrefix_long: "length tok \<le> length y \<Longrightarrow> HasPrefix (y @ z) tok = HasPrefix y tok"
  by (simp add: HasPrefix_def)

lemma HasPrefix_first: "tok \<noteq> [] \<Longrightarrow> HasPrefix s tok \<Longrightarrow> s \<noteq> [] \<and> hd s = hd tok"
  by (cases tok; cases s) (simp_all add: HasPrefix_def)

lemma beginsIn_HasPrefix:
  assumes "\<not> beginsIn tok x s" and "length tok \<le> Suc (length s)" and "i < length x"
  shows "\<not> HasPrefix (drop i x @ s @ z) tok"
  using assms
proof (induction x arbitrary: i)
  case Nil
  then show ?case by simp
next
  case (Cons c x)
  show ?case
  proof (cases i)
    case 0
    from Cons.prems(1) have "\<not> HasPrefix (c # x @ s) tok" by simp
    moreover have "length tok \<le> length (c # x @ s)" using Cons.prems(2) by simp
    ultimately have "\<not> HasPrefix ((c # x @ s) @ z) tok"
      using HasPrefix_long [of tok "c # x @ s" z] by blast
    with 0 show ?thesis by simp
  next
    case (Suc j)
    with Cons.prems have "j < length x" "\<not> beginsIn tok x s" by simp_all
    from Cons.IH [OF this(2) Cons.prems(2) this(1)] Suc show ?thesis by simp
  qed
qed

lemma beginsIn_no_first: "tok \<noteq> [] \<Longrightarrow> hd tok \<notin> set x \<Longrightarrow> \<not> beginsIn tok x s"
  by (induction x) (auto simp: HasPrefix_def neq_Nil_conv)

text \<open>
  The rewrite copies a text in which no class placeholder begins; while it looks for the
  link it copies a text in which neither placeholder begins, and puts the lookup's answer
  in the place of the version placeholder.
\<close>

lemma badgeAt_not_class: "\<not> HasPrefix s latestMinorClassPlaceholder \<Longrightarrow> badgeAt s = None"
  by (simp add: badgeAt_def)

lemma rewrite_pass:
  assumes "\<forall>i<length a. \<not> HasPrefix (drop i a @ rest) latestMinorClassPlaceholder"
  shows "rewrite latest None (a @ rest) = a @ rewrite latest None rest"
  using assms
proof (induction a)
  case Nil
  then show ?case by simp
next
  case (Cons c a)
  from Cons.prems have "\<not> HasPrefix (c # a @ rest) latestMinorClassPlaceholder" by force
  then have b: "badgeAt (c # a @ rest) = None" by (rule badgeAt_not_class)
  from Cons.prems have "\<forall>i<length a. \<not> HasPrefix (drop i a @ rest) latestMinorClassPlaceholder"
    by force
  with Cons.IH b show ?case by simp
qed

lemma rewrite_pass_link:
  assumes "\<forall>i<length c. \<not> HasPrefix (drop i c @ rest) latestMinorClassPlaceholder"
      and "\<forall>i<length c. \<not> HasPrefix (drop i c @ rest) LatestMinorVersionPlaceholder"
  shows "rewrite latest (Some lv) (c @ rest) = c @ rewrite latest (Some lv) rest"
  using assms
proof (induction c)
  case Nil
  then show ?case by simp
next
  case (Cons x c)
  from Cons.prems(1) have "\<not> HasPrefix (x # c @ rest) latestMinorClassPlaceholder" by force
  then have b: "badgeAt (x # c @ rest) = None" by (rule badgeAt_not_class)
  from Cons.prems(2) have v: "\<not> HasPrefix (x # c @ rest) LatestMinorVersionPlaceholder" by force
  from Cons.prems have
    "\<forall>i<length c. \<not> HasPrefix (drop i c @ rest) latestMinorClassPlaceholder"
    "\<forall>i<length c. \<not> HasPrefix (drop i c @ rest) LatestMinorVersionPlaceholder"
    by force+
  with Cons.IH b v show ?case by simp
qed

lemma rewrite_version:
  "rewrite latest (Some lv) (LatestMinorVersionPlaceholder @ d) = lv @ rewrite latest None d"
proof -
  have "\<not> HasPrefix (LatestMinorVersionPlaceholder @ d) latestMinorClassPlaceholder"
    by (simp add: LatestMinorVersionPlaceholder_def latestMinorClassPlaceholder_def HasPrefix_def)
  then have b: "badgeAt (LatestMinorVersionPlaceholder @ d) = None" by (rule badgeAt_not_class)
  obtain x xs where e: "LatestMinorVersionPlaceholder @ d = x # xs"
    by (cases "LatestMinorVersionPlaceholder @ d") (simp_all add: LatestMinorVersionPlaceholder_def)
  have h: "HasPrefix (x # xs) LatestMinorVersionPlaceholder"
    unfolding e [symmetric] by simp
  have "drop (length LatestMinorVersionPlaceholder) (x # xs) = d"
    unfolding e [symmetric] by simp
  with b h show ?thesis unfolding e by simp
qed

text \<open>
  The attribute pattern reads the four values where they are written out, and a badge is
  found where they follow the class placeholder in its tag.
\<close>

lemma quoted_value: "dq \<notin> set v \<Longrightarrow> quoted (v @ dq # rest) = Some (v, rest)"
  by (induction v) auto

lemma attribute_value:
  "dq \<notin> set v \<Longrightarrow> attribute name (name @ ''='' @ [dq] @ v @ [dq] @ rest) = Some (v, rest)"
  using quoted_value [of v rest] by (simp add: attribute_def HasPrefix_def)

lemma matchInfo_badgeAttrs:
  assumes "dq \<notin> set version" "dq \<notin> set mpath" "dq \<notin> set ppath" "dq \<notin> set pagetype"
  shows "matchInfo (badgeAttrs version mpath ppath pagetype @ s) =
           Some ((version, mpath, ppath, pagetype), s)"
proof -
  let ?s3 = "'' data-pagetype'' @ ''='' @ [dq] @ pagetype @ [dq] @ s"
  let ?s2 = "'' data-ppath'' @ ''='' @ [dq] @ ppath @ [dq] @ ?s3"
  let ?s1 = "'' data-mpath'' @ ''='' @ [dq] @ mpath @ [dq] @ ?s2"
  have e: "badgeAttrs version mpath ppath pagetype @ s =
          ''data-version'' @ ''='' @ [dq] @ version @ [dq] @ ?s1"
    by (simp add: badgeAttrs_def)
  have "attribute ''data-version'' (''data-version'' @ ''='' @ [dq] @ version @ [dq] @ ?s1)
          = Some (version, ?s1)"
    using assms(1) by (rule attribute_value)
  moreover have "attribute '' data-mpath'' ?s1 = Some (mpath, ?s2)"
    using assms(2) by (rule attribute_value)
  moreover have "attribute '' data-ppath'' ?s2 = Some (ppath, ?s3)"
    using assms(3) by (rule attribute_value)
  moreover have "attribute '' data-pagetype'' ?s3 = Some (pagetype, s)"
    using assms(4) by (rule attribute_value)
  ultimately show ?thesis
    unfolding e matchInfo_def by simp
qed

lemma matchInfo_needs_start: "\<not> HasPrefix s attrStart \<Longrightarrow> matchInfo s = None"
  by (simp add: matchInfo_def attribute_def attrStart_def)

lemma badgeAttrs_start: "badgeAttrs v m p t = attrStart @ drop (length attrStart) (badgeAttrs v m p t)"
  by (simp add: badgeAttrs_def attrStart_def)

lemma tagAttrs_found:
  assumes "CHR ''>'' \<notin> set t" and "\<not> beginsIn attrStart t attrStart"
      and "dq \<notin> set version" "dq \<notin> set mpath" "dq \<notin> set ppath" "dq \<notin> set pagetype"
  shows "tagAttrs (t @ badgeAttrs version mpath ppath pagetype @ s) =
           Some ((version, mpath, ppath, pagetype),
                 length t + length (badgeAttrs version mpath ppath pagetype))"
  using assms(1,2)
proof (induction t)
  case Nil
  let ?b = "badgeAttrs version mpath ppath pagetype"
  obtain x xs where e: "?b @ s = x # xs"
    by (cases "?b @ s") (simp_all add: badgeAttrs_def)
  have "matchInfo (x # xs) = Some ((version, mpath, ppath, pagetype), s)"
    unfolding e [symmetric] using assms(3-6) by (rule matchInfo_badgeAttrs)
  moreover have "length (x # xs) - length s = length ?b"
    unfolding e [symmetric] by simp
  ultimately show ?case using e by simp
next
  case (Cons c t)
  let ?b = "badgeAttrs version mpath ppath pagetype"
  let ?z = "drop (length attrStart) ?b @ s"
  have "\<not> HasPrefix (drop 0 (c # t) @ attrStart @ ?z) attrStart"
    using Cons.prems(2) by (intro beginsIn_HasPrefix) simp_all
  then have "\<not> HasPrefix (c # t @ ?b @ s) attrStart"
    using badgeAttrs_start [of version mpath ppath pagetype] by (metis append.assoc append_Cons drop0)
  then have m: "matchInfo (c # t @ ?b @ s) = None"
    by (rule matchInfo_needs_start)
  from Cons.prems have "CHR ''>'' \<notin> set t" "\<not> beginsIn attrStart t attrStart" "c \<noteq> CHR ''>''"
    by auto
  with Cons.IH m show ?case by simp
qed

lemma rewrite_badge:
  assumes "CHR ''>'' \<notin> set t" and "\<not> beginsIn attrStart t attrStart"
      and "dq \<notin> set version" "dq \<notin> set mpath" "dq \<notin> set ppath" "dq \<notin> set pagetype"
  shows "rewrite latest link
           (latestMinorClassPlaceholder @ t @ badgeAttrs version mpath ppath pagetype @ s) =
         latestClass (decodeVersion version) (latest ppath mpath pagetype) @ t @
           badgeAttrs version mpath ppath pagetype @
           rewrite latest (Some (latest ppath mpath pagetype)) s"
proof -
  let ?C = latestMinorClassPlaceholder
  let ?b = "badgeAttrs version mpath ppath pagetype"
  let ?body = "?C @ t @ ?b @ s"
  obtain x xs where e: "?body = x # xs"
    by (cases ?body) (simp_all add: latestMinorClassPlaceholder_def)
  have "badgeAt ?body = tagAttrs (t @ ?b @ s)"
    by (simp add: badgeAt_def)
  then have b: "badgeAt (x # xs) = Some ((version, mpath, ppath, pagetype), length t + length ?b)"
    unfolding e [symmetric] using tagAttrs_found [OF assms, of s] by simp
  have t: "take (length t + length ?b) (drop (length ?C) (x # xs)) = t @ ?b"
    unfolding e [symmetric] by simp
  have d: "drop (length ?C + (length t + length ?b)) (x # xs) = s"
    unfolding e [symmetric] by simp
  show ?thesis
    unfolding e using b t d by (simp add: Let_def)
qed

text \<open>
  One badge: the text before it is copied, the badge is rewritten from its own attributes,
  and the rest of the body is rewritten in its turn. Two badges follow from this, each with
  its own lookup.
\<close>

lemma LatestVersion_badge_general:
  assumes "\<not> beginsIn latestMinorClassPlaceholder a latestMinorClassPlaceholder"
      and "CHR ''>'' \<notin> set t" and "\<not> beginsIn attrStart t attrStart"
      and "dq \<notin> set version \<union> set mpath \<union> set ppath \<union> set pagetype"
      and "\<not> beginsIn latestMinorClassPlaceholder c LatestMinorVersionPlaceholder"
      and "\<not> beginsIn LatestMinorVersionPlaceholder c LatestMinorVersionPlaceholder"
  shows "LatestVersion latest
           (a @ latestMinorClassPlaceholder @ t @ badgeAttrs version mpath ppath pagetype @ c @
            LatestMinorVersionPlaceholder @ d) =
         a @ latestClass (decodeVersion version) (latest ppath mpath pagetype) @ t @
           badgeAttrs version mpath ppath pagetype @ c @ latest ppath mpath pagetype @
           LatestVersion latest d"
proof -
  let ?C = latestMinorClassPlaceholder and ?V = LatestMinorVersionPlaceholder
  let ?b = "badgeAttrs version mpath ppath pagetype"
  let ?lv = "latest ppath mpath pagetype"
  have lenC: "length ?C \<le> Suc (length ?C)" "length ?C \<le> Suc (length ?V)"
    "length ?V \<le> Suc (length ?V)"
    by (simp_all add: latestMinorClassPlaceholder_def LatestMinorVersionPlaceholder_def)
  have "\<forall>i<length a. \<not> HasPrefix (drop i a @ ?C @ t @ ?b @ c @ ?V @ d) ?C"
    using beginsIn_HasPrefix [OF assms(1) lenC(1)] by blast
  then have one: "rewrite latest None (a @ ?C @ t @ ?b @ c @ ?V @ d) =
                  a @ rewrite latest None (?C @ t @ ?b @ c @ ?V @ d)"
    by (rule rewrite_pass)
  have two: "rewrite latest None (?C @ t @ ?b @ c @ ?V @ d) =
             latestClass (decodeVersion version) ?lv @ t @ ?b @
               rewrite latest (Some ?lv) (c @ ?V @ d)"
    using assms(2,3,4) by (intro rewrite_badge) auto
  have "\<forall>i<length c. \<not> HasPrefix (drop i c @ ?V @ d) ?C"
    using beginsIn_HasPrefix [OF assms(5) lenC(2)] by blast
  moreover have "\<forall>i<length c. \<not> HasPrefix (drop i c @ ?V @ d) ?V"
    using beginsIn_HasPrefix [OF assms(6) lenC(3)] by blast
  ultimately have three: "rewrite latest (Some ?lv) (c @ ?V @ d) =
                          c @ rewrite latest (Some ?lv) (?V @ d)"
    by (rule rewrite_pass_link)
  have four: "rewrite latest (Some ?lv) (?V @ d) = ?lv @ rewrite latest None d"
    by (rule rewrite_version)
  from one two three four show ?thesis
    by (simp add: LatestVersion_def)
qed

lemma LatestVersion_two_badges:
  assumes "\<not> beginsIn latestMinorClassPlaceholder a1 latestMinorClassPlaceholder"
      and "CHR ''>'' \<notin> set t1" and "\<not> beginsIn attrStart t1 attrStart"
      and "dq \<notin> set v1 \<union> set m1 \<union> set p1 \<union> set pt1"
      and "\<not> beginsIn latestMinorClassPlaceholder c1 LatestMinorVersionPlaceholder"
      and "\<not> beginsIn LatestMinorVersionPlaceholder c1 LatestMinorVersionPlaceholder"
      and "\<not> beginsIn latestMinorClassPlaceholder a2 latestMinorClassPlaceholder"
      and "CHR ''>'' \<notin> set t2" and "\<not> beginsIn attrStart t2 attrStart"
      and "dq \<notin> set v2 \<union> set m2 \<union> set p2 \<union> set pt2"
      and "\<not> beginsIn latestMinorClassPlaceholder c2 LatestMinorVersionPlaceholder"
      and "\<not> beginsIn LatestMinorVersionPlaceholder c2 LatestMinorVersionPlaceholder"
  shows "LatestVersion latest
           (a1 @ latestMinorClassPlaceholder @ t1 @ badgeAttrs v1 m1 p1 pt1 @ c1 @
              LatestMinorVersionPlaceholder @
            a2 @ latestMinorClassPlaceholder @ t2 @ badgeAttrs v2 m2 p2 pt2 @ c2 @
              LatestMinorVersionPlaceholder @ d) =
         a1 @ latestClass (decodeVersion v1) (latest p1 m1 pt1) @ t1 @ badgeAttrs v1 m1 p1 pt1 @
           c1 @ latest p1 m1 pt1 @
         a2 @ latestClass (decodeVersion v2) (latest p2 m2 pt2) @ t2 @ badgeAttrs v2 m2 p2 pt2 @
           c2 @ latest p2 m2 pt2 @ LatestVersion latest d"
  using LatestVersion_badge_general [OF assms(1-6), of latest
          "a2 @ latestMinorClassPlaceholder @ t2 @ badgeAttrs v2 m2 p2 pt2 @ c2 @
             LatestMinorVersionPlaceholder @ d"]
        LatestVersion_badge_general [OF assms(7-12), of latest d]
  by simp

text \<open>
  A body in which the attribute pattern is not found passes through, and so does a text
  without a dollar sign.
\<close>

lemma matchInfo_Nil [simp]: "matchInfo [] = None"
  by (simp add: matchInfo_def attribute_def HasPrefix_def)

lemma matchInfo_not_d: "c \<noteq> CHR ''d'' \<Longrightarrow> matchInfo (c # cs) = None"
  by (simp add: matchInfo_def attribute_def HasPrefix_def)

lemma matchInfo_not_da: "c' \<noteq> CHR ''a'' \<Longrightarrow> matchInfo (c # c' # cs) = None"
  by (simp add: matchInfo_def attribute_def HasPrefix_def)

lemma FindSubmatch_noStart:
  "noStart x \<Longrightarrow> FindSubmatch (x @ s) = FindSubmatch s"
proof (induction x rule: noStart.induct)
  case 1
  then show ?case by simp
next
  case (2 c)
  then show ?case by (simp add: matchInfo_not_d)
next
  case (3 c c' cs)
  then have "matchInfo (c # c' # cs @ s) = None"
    by (auto simp: matchInfo_not_d matchInfo_not_da)
  with 3 show ?case by simp
qed

lemma FindSubmatch_none: "noStart x \<Longrightarrow> FindSubmatch x = None"
  using FindSubmatch_noStart [of x "[]"] by simp

lemma FindSubmatch_Cons: "FindSubmatch cs \<noteq> None \<Longrightarrow> FindSubmatch (c # cs) \<noteq> None"
  by (cases "matchInfo (c # cs)") auto

lemma FindSubmatch_drop: "FindSubmatch (drop n s) \<noteq> None \<Longrightarrow> FindSubmatch s \<noteq> None"
proof (induction s arbitrary: n)
  case Nil
  then show ?case by simp
next
  case (Cons c s)
  show ?case
  proof (cases n)
    case 0
    with Cons.prems show ?thesis by simp
  next
    case (Suc k)
    with Cons.prems have "FindSubmatch (drop k s) \<noteq> None" by simp
    then have "FindSubmatch s \<noteq> None" by (rule Cons.IH)
    then show ?thesis by (rule FindSubmatch_Cons)
  qed
qed

lemma tagAttrs_FindSubmatch: "tagAttrs s = Some r \<Longrightarrow> FindSubmatch s \<noteq> None"
proof (induction s arbitrary: r)
  case Nil
  then show ?case by simp
next
  case (Cons c s)
  show ?case
  proof (cases "matchInfo (c # s)")
    case None
    with Cons.prems obtain r' where "tagAttrs s = Some r'"
      by (auto split: if_splits option.splits)
    then have "FindSubmatch s \<noteq> None" by (rule Cons.IH)
    then show ?thesis by (rule FindSubmatch_Cons)
  next
    case (Some m)
    then show ?thesis by (cases m) simp
  qed
qed

lemma badgeAt_FindSubmatch:
  assumes "badgeAt s = Some r"
  shows "FindSubmatch s \<noteq> None"
proof -
  from assms have "tagAttrs (drop (length latestMinorClassPlaceholder) s) = Some r"
    by (simp add: badgeAt_def split: if_splits)
  then have "FindSubmatch (drop (length latestMinorClassPlaceholder) s) \<noteq> None"
    by (rule tagAttrs_FindSubmatch)
  then show ?thesis by (rule FindSubmatch_drop)
qed

lemma rewrite_no_attributes: "FindSubmatch s = None \<Longrightarrow> rewrite latest None s = s"
proof (induction s)
  case Nil
  then show ?case by simp
next
  case (Cons c s)
  from Cons.prems have b: "badgeAt (c # s) = None"
    using badgeAt_FindSubmatch [of "c # s"] by (cases "badgeAt (c # s)") auto
  from Cons.prems have "FindSubmatch s = None"
    using FindSubmatch_Cons [of s c] by blast
  with Cons.IH b show ?case by simp
qed

lemma LatestVersion_no_match: "FindSubmatch body = None \<Longrightarrow> LatestVersion latest body = body"
  by (simp add: LatestVersion_def rewrite_no_attributes)

lemma LatestVersion_no_class:
  assumes "CHR ''$'' \<notin> set d"
  shows "LatestVersion latest d = d"
proof -
  have "\<not> HasPrefix (drop i d @ []) latestMinorClassPlaceholder" if "i < length d" for i
  proof
    assume "HasPrefix (drop i d @ []) latestMinorClassPlaceholder"
    then have "hd (drop i d) = CHR ''$''"
      using HasPrefix_first [of latestMinorClassPlaceholder "drop i d"]
      by (simp add: latestMinorClassPlaceholder_def)
    with that have "d ! i = CHR ''$''" by (simp add: hd_drop_conv_nth)
    with that assms show False by (metis nth_mem)
  qed
  then have "rewrite latest None (d @ []) = d @ rewrite latest None []"
    by (intro rewrite_pass) blast
  then show ?thesis by (simp add: LatestVersion_def)
qed

text \<open>
  Decoding: a version without an ampersand is left alone, the entity \<open>&#43;\<close> becomes a
  plus sign, and any other ampersand stays.
\<close>

lemma HasPrefix_ReplaceAll_skip:
  "old \<noteq> [] \<Longrightarrow> hd old \<notin> set a \<Longrightarrow> ReplaceAll old new (a @ s) = a @ ReplaceAll old new s"
proof (induction a)
  case Nil
  then show ?case by simp
next
  case (Cons c a)
  then obtain x xs where old: "old = x # xs" by (cases old) auto
  with Cons.prems have "c \<noteq> x" by auto
  then have "\<not> HasPrefix (c # a @ s) old"
    by (simp add: old HasPrefix_Cons)
  with Cons show ?case by simp
qed

lemma decodeVersion_plain: "CHR ''&'' \<notin> set v \<Longrightarrow> decodeVersion v = v"
  using HasPrefix_ReplaceAll_skip [of "''&#43;''" v "''+''" "[]"] by (simp add: decodeVersion_def)

lemma decodeVersion_entity:
  "CHR ''&'' \<notin> set x \<Longrightarrow> decodeVersion (x @ ''&#43;'' @ y) = x @ ''+'' @ decodeVersion y"
  using HasPrefix_ReplaceAll_skip [of "''&#43;''" x "''+''" "''&#43;'' @ y"]
  by (simp add: decodeVersion_def HasPrefix_def)


lemma decodeVersion_build: "decodeVersion ''v1.2.3&#43;build'' = ''v1.2.3+build''"
  using decodeVersion_entity [of "''v1.2.3''" "''build''"] decodeVersion_plain [of "''build''"]
  by simp

text \<open>
  The markup of the test's pages: no dollar sign outside the placeholders, and nothing in
  the tag before the attributes that ends the tag or begins the pattern.
\<close>

lemma test_no_dollar:
  "CHR ''$'' \<notin> set testHead" "CHR ''$'' \<notin> set testIndent" "CHR ''$'' \<notin> set testMiddle"
  "CHR ''$'' \<notin> set testTail"
  by (simp_all add: testHead_def testIndent_def testMiddle_def testTail_def dq_def)

lemma testIndent_tag: "CHR ''>'' \<notin> set testIndent" "CHR ''d'' \<notin> set testIndent"
  by (simp_all add: testIndent_def dq_def)

lemma placeholder_heads:
  "latestMinorClassPlaceholder \<noteq> []" "hd latestMinorClassPlaceholder = CHR ''$''"
  "LatestMinorVersionPlaceholder \<noteq> []" "hd LatestMinorVersionPlaceholder = CHR ''$''"
  "attrStart \<noteq> []" "hd attrStart = CHR ''d''"
  by (simp_all add: latestMinorClassPlaceholder_def LatestMinorVersionPlaceholder_def
      attrStart_def)

lemma no_dollar_no_placeholder:
  "CHR ''$'' \<notin> set x \<Longrightarrow> \<not> beginsIn latestMinorClassPlaceholder x s"
  "CHR ''$'' \<notin> set x \<Longrightarrow> \<not> beginsIn LatestMinorVersionPlaceholder x s"
  by (simp_all add: beginsIn_no_first placeholder_heads)

lemma testPage_split:
  "testPage cls attrs hb ver ha =
     testHead @ cls @ testIndent @ attrs @ (testMiddle @ hb) @ ver @ (ha @ testTail)"
  by (simp add: testPage_def)

lemma LatestVersion_testPage:
  assumes "dq \<notin> set version \<union> set mpath \<union> set ppath \<union> set pagetype"
      and "CHR ''$'' \<notin> set hb \<union> set ha"
  shows "LatestVersion latest
           (testPage latestMinorClassPlaceholder (badgeAttrs version mpath ppath pagetype)
              hb LatestMinorVersionPlaceholder ha) =
         testPage (latestClass (decodeVersion version) (latest ppath mpath pagetype))
           (badgeAttrs version mpath ppath pagetype) hb (latest ppath mpath pagetype) ha"
proof -
  have a: "\<not> beginsIn latestMinorClassPlaceholder testHead latestMinorClassPlaceholder"
    using test_no_dollar by (intro no_dollar_no_placeholder)
  have t: "\<not> beginsIn attrStart testIndent attrStart"
    using testIndent_tag by (simp add: beginsIn_no_first placeholder_heads)
  have c: "CHR ''$'' \<notin> set (testMiddle @ hb)"
    using assms(2) test_no_dollar by simp
  have d: "LatestVersion latest (ha @ testTail) = ha @ testTail"
    using assms(2) test_no_dollar by (intro LatestVersion_no_class) simp
  show ?thesis
    unfolding testPage_split
    using LatestVersion_badge_general
            [OF a testIndent_tag(1) t assms(1) no_dollar_no_placeholder(1) [OF c]
                no_dollar_no_placeholder(2) [OF c], of latest "ha @ testTail"] d
    by simp
qed

text \<open>
  The seven cases of \<open>TestLatestVersion\<close>, page for page.
\<close>

lemma TestLatestVersion_package_not_latest:
  "LatestVersion (latestIs ''v1.2.3'')
     (testPage latestMinorClassPlaceholder (badgeAttrs ''v1.0.0'' ''p1/p2'' ''p1/p2/p3'' ''pkg'')
        ''p1/p2@'' LatestMinorVersionPlaceholder ''/p3'') =
   testPage ''DetailsHeader-badge--goToLatest''
     (badgeAttrs ''v1.0.0'' ''p1/p2'' ''p1/p2/p3'' ''pkg'') ''p1/p2@'' ''v1.2.3'' ''/p3''"
  by (simp add: LatestVersion_testPage dq_def latestIs_def latestClass_def decodeVersion_plain)

lemma TestLatestVersion_package_latest:
  "LatestVersion (latestIs ''v1.2.3'')
     (testPage latestMinorClassPlaceholder (badgeAttrs ''v1.2.3'' ''p1/p2'' ''p1/p2/p3'' ''pkg'')
        ''p1/p2@'' LatestMinorVersionPlaceholder ''/p3'') =
   testPage ''DetailsHeader-badge--latest''
     (badgeAttrs ''v1.2.3'' ''p1/p2'' ''p1/p2/p3'' ''pkg'') ''p1/p2@'' ''v1.2.3'' ''/p3''"
  by (simp add: LatestVersion_testPage dq_def latestIs_def latestClass_def decodeVersion_plain)

lemma TestLatestVersion_package_with_build_latest:
  "LatestVersion (latestIs ''v1.2.3+build'')
     (testPage latestMinorClassPlaceholder
        (badgeAttrs ''v1.2.3&#43;build'' ''p1/p2'' ''p1/p2/p3'' ''pkg'')
        ''p1/p2@'' LatestMinorVersionPlaceholder ''/p3'') =
   testPage ''DetailsHeader-badge--latest''
     (badgeAttrs ''v1.2.3&#43;build'' ''p1/p2'' ''p1/p2/p3'' ''pkg'')
     ''p1/p2@'' ''v1.2.3+build'' ''/p3''"
  by (simp add: LatestVersion_testPage dq_def latestIs_def latestClass_def decodeVersion_build)

lemma TestLatestVersion_module_not_latest:
  "LatestVersion (latestIs ''v1.2.3'')
     (testPage latestMinorClassPlaceholder (badgeAttrs ''v1.0.0'' ''p1/p2'' [] ''pkg'')
        ''mod/p1/p2@'' LatestMinorVersionPlaceholder []) =
   testPage ''DetailsHeader-badge--goToLatest''
     (badgeAttrs ''v1.0.0'' ''p1/p2'' [] ''pkg'') ''mod/p1/p2@'' ''v1.2.3'' []"
  by (simp add: LatestVersion_testPage dq_def latestIs_def latestClass_def decodeVersion_plain)

lemma TestLatestVersion_module_latest:
  "LatestVersion (latestIs ''v1.2.3'')
     (testPage latestMinorClassPlaceholder (badgeAttrs ''v1.2.3'' ''p1/p2'' [] ''pkg'')
        ''mod/p1/p2@'' LatestMinorVersionPlaceholder []) =
   testPage ''DetailsHeader-badge--latest''
     (badgeAttrs ''v1.2.3'' ''p1/p2'' [] ''pkg'') ''mod/p1/p2@'' ''v1.2.3'' []"
  by (simp add: LatestVersion_testPage dq_def latestIs_def latestClass_def decodeVersion_plain)

lemma TestLatestVersion_latest_empty:
  "LatestVersion (latestIs [])
     (testPage latestMinorClassPlaceholder (badgeAttrs ''v1.2.3'' ''p1/p2'' [] ''pkg'')
        ''mod/p1/p2@'' LatestMinorVersionPlaceholder []) =
   testPage ''DetailsHeader-badge--unknown''
     (badgeAttrs ''v1.2.3'' ''p1/p2'' [] ''pkg'') ''mod/p1/p2@'' [] []"
  by (simp add: LatestVersion_testPage dq_def latestIs_def latestClass_def decodeVersion_plain)

lemma TestLatestVersion_no_regexp_match:
  "LatestVersion (latestIs ''v1.2.3'') testPageNoAttrs = testPageNoAttrs"
proof -
  have ns: "noStart testPageNoAttrs"
    by (simp add: testPageNoAttrs_def testHead_def testMiddle_def testTail_def dq_def
        latestMinorClassPlaceholder_def LatestMinorVersionPlaceholder_def)
  show ?thesis
    using FindSubmatch_none [OF ns] by (rule LatestVersion_no_match)
qed

text \<open>
  An element that has the four attributes and no class placeholder is no badge: the badge
  behind it is classified from its own attributes. And of two badges on one page each gets
  the answer of its own lookup.
\<close>

lemma LatestVersion_other_element_ignored:
  "LatestVersion (latestIs ''v1.2.3'')
     (otherElement @
      testPage latestMinorClassPlaceholder (badgeAttrs ''v1.0.0'' ''p1/p2'' ''p1/p2/p3'' ''pkg'')
        ''p1/p2@'' LatestMinorVersionPlaceholder ''/p3'') =
   otherElement @
   testPage ''DetailsHeader-badge--goToLatest''
     (badgeAttrs ''v1.0.0'' ''p1/p2'' ''p1/p2/p3'' ''pkg'') ''p1/p2@'' ''v1.2.3'' ''/p3''"
proof -
  have a: "\<not> beginsIn latestMinorClassPlaceholder (otherElement @ testHead)
             latestMinorClassPlaceholder"
    by (rule no_dollar_no_placeholder)
       (simp add: otherElement_def badgeAttrs_def testHead_def dq_def)
  have t: "\<not> beginsIn attrStart testIndent attrStart"
    using testIndent_tag by (simp add: beginsIn_no_first placeholder_heads)
  have v: "dq \<notin> set ''v1.0.0'' \<union> set ''p1/p2'' \<union> set ''p1/p2/p3'' \<union> set ''pkg''"
    by (simp add: dq_def)
  have n: "CHR ''$'' \<notin> set (testMiddle @ ''p1/p2@'')"
    using test_no_dollar by simp
  have d: "LatestVersion (latestIs ''v1.2.3'') (''/p3'' @ testTail) = ''/p3'' @ testTail"
    using test_no_dollar by (intro LatestVersion_no_class) simp
  show ?thesis
    unfolding testPage_split
    using LatestVersion_badge_general
            [OF a testIndent_tag(1) t v no_dollar_no_placeholder(1) [OF n]
                no_dollar_no_placeholder(2) [OF n], of "latestIs ''v1.2.3''" "''/p3'' @ testTail"] d
    by (simp add: latestIs_def latestClass_def decodeVersion_plain)
qed

lemma LatestVersion_each_badge_by_itself:
  "LatestVersion latestOf
     (testPage latestMinorClassPlaceholder (badgeAttrs ''v1.2.3'' ''p1/p2'' ''p1/p2/p3'' ''pkg'')
        ''p1/p2@'' LatestMinorVersionPlaceholder ''/p3'' @
      testPage latestMinorClassPlaceholder (badgeAttrs ''v1.2.3'' ''q'' ''q/r'' ''pkg'')
        ''q@'' LatestMinorVersionPlaceholder ''/r'') =
   testPage ''DetailsHeader-badge--latest''
     (badgeAttrs ''v1.2.3'' ''p1/p2'' ''p1/p2/p3'' ''pkg'') ''p1/p2@'' ''v1.2.3'' ''/p3'' @
   testPage ''DetailsHeader-badge--unknown''
     (badgeAttrs ''v1.2.3'' ''q'' ''q/r'' ''pkg'') ''q@'' [] ''/r''"
proof -
  have a1: "\<not> beginsIn latestMinorClassPlaceholder testHead latestMinorClassPlaceholder"
    using test_no_dollar by (intro no_dollar_no_placeholder)
  have a2: "\<not> beginsIn latestMinorClassPlaceholder ((''/p3'' @ testTail) @ testHead)
              latestMinorClassPlaceholder"
    using test_no_dollar by (intro no_dollar_no_placeholder) simp
  have t: "\<not> beginsIn attrStart testIndent attrStart"
    using testIndent_tag by (simp add: beginsIn_no_first placeholder_heads)
  have v1: "dq \<notin> set ''v1.2.3'' \<union> set ''p1/p2'' \<union> set ''p1/p2/p3'' \<union> set ''pkg''"
    and v2: "dq \<notin> set ''v1.2.3'' \<union> set ''q'' \<union> set ''q/r'' \<union> set ''pkg''"
    by (simp_all add: dq_def)
  have n1: "CHR ''$'' \<notin> set (testMiddle @ ''p1/p2@'')"
    and n2: "CHR ''$'' \<notin> set (testMiddle @ ''q@'')"
    using test_no_dollar by simp_all
  have d: "LatestVersion latestOf (''/r'' @ testTail) = ''/r'' @ testTail"
    using test_no_dollar by (intro LatestVersion_no_class) simp
  show ?thesis
    unfolding testPage_split
    using LatestVersion_two_badges
            [OF a1 testIndent_tag(1) t v1 no_dollar_no_placeholder(1) [OF n1]
                no_dollar_no_placeholder(2) [OF n1]
                a2 testIndent_tag(1) t v2 no_dollar_no_placeholder(1) [OF n2]
                no_dollar_no_placeholder(2) [OF n2], of latestOf "''/r'' @ testTail"] d
    by (simp add: latestOf_def latestClass_def decodeVersion_plain)
qed




end
